theory Spec2Isabelle
  imports Complex_Main
begin

section \<open>Shared pieces of the minigame components\<close>

text \<open>
  The three minigame components (ParkHaMesilahMinigame, GenericMinigame and
  MemadionMinigame) are React function components. Their state cells (useState and the
  fields read from the store) become the fields of one record per component; every event
  handler, timer callback and effect body becomes a function from state to state.
  JavaScript numbers are modelled as reals for coordinates and sizes and as integers for
  millisecond timestamps, scores and hearts. Drawing, audio and logging are left out.

  Every function below reads the state it is given: a handler or effect sees the state
  updates made before it, as if each update had been rendered before the next handler,
  callback or effect runs. Where a timer callback outlives the render that created it, the
  values it closed over are kept in the state next to the timer. A nullable field of the
  store is an option, with \<open>None\<close> for every value that JavaScript tests as false.
\<close>

text \<open>
  What a component does to its host: the callbacks it invokes and the store actions that
  leave the minigame. Each is recorded with the delay of the setTimeout that wraps it
  (0 when the source calls it directly). The host (App with MinigameContainer) renders a
  minigame only while gameState is 'minigame', so the first of these actions to run
  unmounts the component; the components never clear the timeouts that wrap their
  actions, so an action scheduled before the unmount still runs after it.
\<close>

datatype action = OnWin | OnLose | SetGameState string | CompleteNeighborhood string

type_synonym emitted = "nat \<times> action"

text \<open>The actions a step added: the part of the action list after the old list.\<close>

definition newlyFired :: "emitted list \<Rightarrow> emitted list \<Rightarrow> emitted list" where
  "newlyFired before after = drop (length before) after"

record rect =
  r_x :: real
  r_y :: real
  r_width :: real
  r_height :: real

text \<open>rectsOverlap, the same function in ParkHaMesilahMinigame and GenericMinigame.\<close>

definition rectsOverlap :: "rect \<Rightarrow> rect \<Rightarrow> bool" where
  "rectsOverlap a b =
     (r_x a < r_x b + r_width b \<and> r_x a + r_width a > r_x b \<and>
      r_y a < r_y b + r_height b \<and> r_y a + r_height a > r_y b)"

text \<open>
  Modelled from the spec: the store module lib/gameStore is not among the sources, only
  its callers are. The spec gives health.permanentHearts as an integer clamped to
  \<open>\<ge> 0\<close>, an enemy hit as deducting one heart, and a collectible as granting one heart
  capped at the maximum of 5.
\<close>

definition loseHeart :: "int \<Rightarrow> int" where
  "loseHeart h = max 0 (h - 1)"

definition gainHeart :: "int \<Rightarrow> int" where
  "gainHeart h = min 5 (h + 1)"

section \<open>ParkHaMesilahMinigame\<close>

definition GAME_DURATION :: int where "GAME_DURATION = 30000"
definition PLAYER_WIDTH :: real where "PLAYER_WIDTH = 100"
definition PLAYER_HEIGHT :: real where "PLAYER_HEIGHT = 150"
definition PLAYER_Y_POSITION :: real where "PLAYER_Y_POSITION = 80"
definition MOVEMENT_SPEED :: real where "MOVEMENT_SPEED = 6"
definition SCORE_FOR_WIN :: int where "SCORE_FOR_WIN = 100"
definition POINTS_FOR_SPRAY :: int where "POINTS_FOR_SPRAY = 10"
definition SPRAY_SPAWN_INTERVAL :: int where "SPRAY_SPAWN_INTERVAL = 3000"

datatype enemy_type = Roach1 | Roach2 | Rat

record park_enemy =
  pe_x :: real
  pe_y :: real
  pe_type :: enemy_type
  pe_speed :: real
  pe_width :: real
  pe_height :: real

record park_spray =
  ps_x :: real
  ps_y :: real
  ps_width :: real
  ps_height :: real

text \<open>
  The state of one Park session. \<open>p_timer\<close> is the interval armed by the game-timer
  effect, holding the startTime and score its callback closed over. \<open>p_sprayTimer\<close> is
  the interval armed by the spray spawner effect, holding the time it was armed (or was
  last due) and the canvas width its callback closed over. \<open>p_timerDeps\<close>,
  \<open>p_sprayDeps\<close> and \<open>p_heartsDeps\<close> are the dependency values the timer effect, the
  spray spawner effect and the hearts effect last ran with (None before the first run).
  \<open>p_fired\<close> lists the host actions in the order the component issued them.
\<close>

record park_state =
  p_canvas_width :: real
  p_canvas_height :: real
  p_playerX :: real
  p_playerY :: real
  p_running :: bool
  p_score :: int
  p_startTime :: int
  p_timeLeft :: int
  p_enemies :: "park_enemy list"
  p_sprays :: "park_spray list"
  p_hearts :: int
  p_selectedNeighborhood :: "string option"
  p_timer :: "(int \<times> int) option"
  p_timerDeps :: "(bool \<times> real \<times> int \<times> int \<times> string option) option"
  p_sprayTimer :: "(int \<times> real) option"
  p_sprayDeps :: "(bool \<times> real) option"
  p_heartsDeps :: "int option"
  p_fired :: "emitted list"

text \<open>updateSize: the resize handler, also run once on mount.\<close>

definition park_updateSize :: "real \<Rightarrow> real \<Rightarrow> park_state \<Rightarrow> park_state" where
  "park_updateSize width height s =
     s\<lparr>p_canvas_width := width, p_canvas_height := height,
       p_playerX := width / 2, p_playerY := height - PLAYER_Y_POSITION\<rparr>"

text \<open>movePlayer, with the two key flags it reads.\<close>

definition park_movePlayer :: "bool \<Rightarrow> bool \<Rightarrow> park_state \<Rightarrow> park_state" where
  "park_movePlayer arrowLeft arrowRight s =
     (let s1 = (if arrowLeft
                then s\<lparr>p_playerX := max (PLAYER_WIDTH / 2) (p_playerX s - MOVEMENT_SPEED)\<rparr>
                else s)
      in if arrowRight
         then s1\<lparr>p_playerX :=
                  min (p_canvas_width s - PLAYER_WIDTH / 2) (p_playerX s1 + MOVEMENT_SPEED)\<rparr>
         else s1)"

definition getPlayerHitbox :: "park_state \<Rightarrow> rect" where
  "getPlayerHitbox s =
     \<lparr>r_x = p_playerX s - PLAYER_WIDTH / 2, r_y = p_playerY s - PLAYER_HEIGHT,
      r_width = PLAYER_WIDTH, r_height = PLAYER_HEIGHT\<rparr>"

definition park_enemyHitbox :: "park_enemy \<Rightarrow> rect" where
  "park_enemyHitbox enemy =
     \<lparr>r_x = pe_x enemy, r_y = pe_y enemy - pe_height enemy,
      r_width = pe_width enemy, r_height = pe_height enemy\<rparr>"

definition park_sprayHitbox :: "park_spray \<Rightarrow> rect" where
  "park_sprayHitbox spray =
     \<lparr>r_x = ps_x spray, r_y = ps_y spray, r_width = ps_width spray, r_height = ps_height spray\<rparr>"

definition park_enemyOffScreen :: "real \<Rightarrow> park_enemy \<Rightarrow> bool" where
  "park_enemyOffScreen width enemy =
     ((pe_speed enemy > 0 \<and> pe_x enemy > width) \<or>
      (pe_speed enemy < 0 \<and> pe_x enemy + pe_width enemy < 0))"

text \<open>
  The enemy loop of checkCollisions. The source walks the copied array from its last
  index down to 0 and splices out the entries it drops, so the list argument here is the
  array reversed and the kept entries are consed back into array order. Every
  overlapping enemy calls loseHeart and is removed.
\<close>

fun park_enemyLoop ::
  "real \<Rightarrow> rect \<Rightarrow> park_enemy list \<Rightarrow> park_enemy list \<Rightarrow> int \<Rightarrow> park_enemy list \<times> int" where
  "park_enemyLoop width playerHitbox [] kept hearts = (kept, hearts)"
| "park_enemyLoop width playerHitbox (enemy # rest) kept hearts =
     (if rectsOverlap playerHitbox (park_enemyHitbox enemy)
      then park_enemyLoop width playerHitbox rest kept (loseHeart hearts)
      else if park_enemyOffScreen width enemy
      then park_enemyLoop width playerHitbox rest kept hearts
      else park_enemyLoop width playerHitbox rest (enemy # kept) hearts)"

text \<open>The spray loop of checkCollisions, walked the same way.\<close>

fun park_sprayLoop ::
  "real \<Rightarrow> rect \<Rightarrow> park_spray list \<Rightarrow> park_spray list \<Rightarrow> int \<Rightarrow> park_spray list \<times> int" where
  "park_sprayLoop height playerHitbox [] kept score = (kept, score)"
| "park_sprayLoop height playerHitbox (spray # rest) kept score =
     (if rectsOverlap playerHitbox (park_sprayHitbox spray)
      then park_sprayLoop height playerHitbox rest kept (score + POINTS_FOR_SPRAY)
      else if ps_y spray > height
      then park_sprayLoop height playerHitbox rest kept score
      else park_sprayLoop height playerHitbox rest (spray # kept) score)"

definition park_checkCollisions :: "park_state \<Rightarrow> park_state" where
  "park_checkCollisions s =
     (let playerHitbox = getPlayerHitbox s;
          en = park_enemyLoop (p_canvas_width s) playerHitbox (rev (p_enemies s)) [] (p_hearts s);
          sp = park_sprayLoop (p_canvas_height s) playerHitbox (rev (p_sprays s)) [] (p_score s)
      in s\<lparr>p_enemies := fst en, p_hearts := snd en, p_sprays := fst sp, p_score := snd sp\<rparr>)"

text \<open>
  One animation frame of the game loop. The loop only exists while the game-loop effect
  passed its guard (\<open>running\<close> and a non-zero canvas width). Its body queues position
  updates and then calls checkCollisions, whose setEnemies and setSprays write lists
  computed from the rendered enemies and sprays; the frame is modelled by that call.
\<close>

definition park_loop :: "park_state \<Rightarrow> park_state" where
  "park_loop s =
     (if \<not> p_running s \<or> p_canvas_width s = 0 then s else park_checkCollisions s)"

text \<open>
  The game-timer effect. React re-runs it when one of its dependencies (running, canvas
  width, startTime, score, selectedNeighborhood; the callback props are taken as stable)
  differs from the last run: the cleanup clears the old interval, the body sets startTime
  on the first run (to \<open>now\<close>, the time of the commit) and arms a new interval whose
  callback closes over the rendered startTime and score.
\<close>

definition park_timerEffect :: "int \<Rightarrow> park_state \<Rightarrow> park_state" where
  "park_timerEffect now s =
     (let deps = (p_running s, p_canvas_width s, p_startTime s, p_score s,
                  p_selectedNeighborhood s)
      in if p_timerDeps s = Some deps then s
         else if \<not> p_running s \<or> p_canvas_width s = 0
         then s\<lparr>p_timer := None, p_timerDeps := Some deps\<rparr>
         else s\<lparr>p_startTime := (if p_startTime s = 0 then now else p_startTime s),
                p_timer := Some (p_startTime s, p_score s),
                p_timerDeps := Some deps\<rparr>)"

text \<open>The interval callback of the game timer; it does nothing once the interval is cleared.\<close>

definition park_timerCallback :: "int \<Rightarrow> park_state \<Rightarrow> park_state" where
  "park_timerCallback now s =
     (case p_timer s of
        None \<Rightarrow> s
      | Some (startTime, score) \<Rightarrow>
          (let elapsed = now - startTime;
               remaining = max 0 (GAME_DURATION - elapsed);
               s1 = s\<lparr>p_timeLeft := remaining\<rparr>
           in if remaining \<le> 0
              then (if score \<ge> SCORE_FOR_WIN
                    then s1\<lparr>p_timer := None,
                            p_fired := p_fired s @
                              (case p_selectedNeighborhood s of
                                 None \<Rightarrow> [] | Some n \<Rightarrow> [(0, CompleteNeighborhood n)]) @
                              [(0, OnWin)]\<rparr>
                    else s1\<lparr>p_timer := None, p_fired := p_fired s @ [(0, OnLose)]\<rparr>)
              else s1))"

text \<open>The hearts effect ("Game over if permanentHearts = 0"), re-run when the hearts change.\<close>

definition park_heartsEffect :: "park_state \<Rightarrow> park_state" where
  "park_heartsEffect s =
     (if p_heartsDeps s = Some (p_hearts s) then s
      else if p_hearts s \<le> 0
      then s\<lparr>p_running := False, p_heartsDeps := Some (p_hearts s),
             p_fired := p_fired s @ [(400, SetGameState ''gameover'')]\<rparr>
      else s\<lparr>p_heartsDeps := Some (p_hearts s)\<rparr>)"

text \<open>
  spawnEnemy, the interval callback of the enemy spawner effect, with the guard of that
  effect. The random draws are the arguments: the enemy's type, its speed before the sign
  and the side it enters from.
\<close>

definition ENEMY_Y_POSITION :: real where "ENEMY_Y_POSITION = 20"

definition park_spawnEnemy :: "enemy_type \<Rightarrow> real \<Rightarrow> bool \<Rightarrow> park_state \<Rightarrow> park_state" where
  "park_spawnEnemy enemyType speed fromLeft s =
     (if \<not> p_running s \<or> p_canvas_width s = 0 then s
      else
        let width = (if enemyType = Rat then 90 else 60);
            height = (if enemyType = Rat then 45 else 35);
            x = (if fromLeft then - width else p_canvas_width s);
            y = p_canvas_height s - ENEMY_Y_POSITION
        in s\<lparr>p_enemies := p_enemies s @
               [\<lparr>pe_x = x, pe_y = y, pe_type = enemyType,
                 pe_speed = speed * (if fromLeft then 1 else - 1),
                 pe_width = width, pe_height = height\<rparr>]\<rparr>)"

text \<open>
  The "Spawn sprays" effect, re-run when \<open>running\<close> or the canvas width differs from the
  last run: the cleanup clears the old interval and the body, past its guard, arms a new
  one. \<open>now\<close> is the time of the commit in which the effect runs.
\<close>

definition park_sprayEffect :: "int \<Rightarrow> park_state \<Rightarrow> park_state" where
  "park_sprayEffect now s =
     (let deps = (p_running s, p_canvas_width s)
      in if p_sprayDeps s = Some deps then s
         else if \<not> p_running s \<or> p_canvas_width s = 0
         then s\<lparr>p_sprayTimer := None, p_sprayDeps := Some deps\<rparr>
         else s\<lparr>p_sprayTimer := Some (now, p_canvas_width s), p_sprayDeps := Some deps\<rparr>)"

text \<open>
  spawnSpray, the callback of that interval; it does nothing once the interval is cleared.
  setInterval calls it no earlier than SPRAY_SPAWN_INTERVAL ms after the interval was
  armed or was last due: \<open>now\<close> is the time of the call, and a call that would come
  earlier does not happen. \<open>u\<close> is the Math.random() value that places the spray.
\<close>

definition park_spawnSpray :: "int \<Rightarrow> real \<Rightarrow> park_state \<Rightarrow> park_state" where
  "park_spawnSpray now u s =
     (case p_sprayTimer s of
        None \<Rightarrow> s
      | Some (due, canvasWidth) \<Rightarrow>
          if now < due + SPRAY_SPAWN_INTERVAL then s
          else
            let width = 45;
                height = 80;
                x = u * (canvasWidth - width);
                y = - height
            in s\<lparr>p_sprays := p_sprays s @
                   [\<lparr>ps_x = x, ps_y = y, ps_width = width, ps_height = height\<rparr>],
                 p_sprayTimer := Some (due + SPRAY_SPAWN_INTERVAL, canvasWidth)\<rparr>)"

text \<open>
  One commit of the component: React runs the effects whose dependencies changed in the
  order the component declares them, here the spray spawner effect, the game-timer effect
  and the hearts effect. None of the three writes a field that a later one reads, so
  running them one after the other is running them on the rendered values. The effects of
  one commit are taken to read the same clock value \<open>now\<close>.
\<close>

definition park_commit :: "int \<Rightarrow> park_state \<Rightarrow> park_state" where
  "park_commit now s = park_heartsEffect (park_timerEffect now (park_sprayEffect now s))"

text \<open>The events of a Park session and the transition each one makes.\<close>

datatype park_event =
    PResize real real
  | PMove bool bool
  | PSpawnEnemy enemy_type real bool
  | PSpawnSpray int real
  | PFrame
  | PCommit int
  | PTimerTick int

fun park_step :: "park_event \<Rightarrow> park_state \<Rightarrow> park_state" where
  "park_step (PResize width height) s = park_updateSize width height s"
| "park_step (PMove arrowLeft arrowRight) s = park_movePlayer arrowLeft arrowRight s"
| "park_step (PSpawnEnemy enemyType speed fromLeft) s = park_spawnEnemy enemyType speed fromLeft s"
| "park_step (PSpawnSpray now u) s = park_spawnSpray now u s"
| "park_step PFrame s = park_loop s"
| "park_step (PCommit now) s = park_commit now s"
| "park_step (PTimerTick now) s = park_timerCallback now s"

definition park_run :: "park_event list \<Rightarrow> park_state \<Rightarrow> park_state" where
  "park_run evs s = fold park_step evs s"

text \<open>The state of a freshly mounted component, before any effect has run.\<close>

definition park_init :: "int \<Rightarrow> string option \<Rightarrow> park_state" where
  "park_init hearts neighborhood =
     \<lparr>p_canvas_width = 0, p_canvas_height = 0, p_playerX = 0, p_playerY = 0,
      p_running = True, p_score = 0, p_startTime = 0, p_timeLeft = GAME_DURATION,
      p_enemies = [], p_sprays = [], p_hearts = hearts,
      p_selectedNeighborhood = neighborhood, p_timer = None, p_timerDeps = None,
      p_sprayTimer = None, p_sprayDeps = None, p_heartsDeps = None, p_fired = []\<rparr>"

section \<open>GenericMinigame\<close>

definition PLAYER_RADIUS :: real where "PLAYER_RADIUS = 24"

record gen_enemy =
  ge_x :: real
  ge_y :: real
  ge_size :: real
  ge_spawnTime :: int

record gen_item =
  gi_x :: real
  gi_y :: real
  gi_type :: string
  gi_spawnTime :: int

record image =
  img_width :: real
  img_height :: real

text \<open>
  The state of one session of the generic engine: the component's state cells, the store
  fields it reads (hearts, invulnerability, minigameStartTime, selectedNeighborhood,
  selectedCharacter), the two image refs that the hitboxes depend on, and the props
  (whether onWin and onLose were passed, gameDuration, the theme's enemySpeed).
  \<open>g_interval\<close> is the interval armed by the end-minigame effect, with the start time and
  duration its callback closed over; \<open>g_heartsDeps\<close> is the hearts value the hearts effect
  last ran with. Flicker, shake, aura and the red overlay only steer drawing and are left
  out.
\<close>

record gen_state =
  g_canvas_width :: real
  g_canvas_height :: real
  g_playerX :: real
  g_enemies :: "gen_enemy list"
  g_collectible :: "gen_item option"
  g_pointItem :: "gen_item option"
  g_running :: bool
  g_score :: int
  g_remainingTime :: int
  g_hearts :: int
  g_isInvulnerable :: bool
  g_invulnerabilityEndTime :: int
  g_minigameStartTime :: int
  g_selectedNeighborhood :: "string option"
  g_selectedCharacter :: "string option"
  g_playerImage :: "image option"
  g_enemyImage :: "image option"
  g_hasOnWin :: bool
  g_hasOnLose :: bool
  g_gameDuration :: "int option"
  g_enemySpeed :: real
  g_interval :: "(int \<times> int) option"
  g_heartsDeps :: "int option"
  g_fired :: "emitted list"

text \<open>
  Modelled from the spec: setInvulnerable and clearInvulnerable are actions of the store
  module lib/gameStore, which is not among the sources. The spec describes
  invulnerability as a timed effect with an expiry timestamp that an enemy hit arms
  immediately and that clears once the expiry has passed.
\<close>

definition setInvulnerable :: "int \<Rightarrow> gen_state \<Rightarrow> gen_state" where
  "setInvulnerable until s = s\<lparr>g_isInvulnerable := True, g_invulnerabilityEndTime := until\<rparr>"

definition clearInvulnerable :: "gen_state \<Rightarrow> gen_state" where
  "clearInvulnerable s = s\<lparr>g_isInvulnerable := False\<rparr>"

definition gen_updateSize :: "real \<Rightarrow> real \<Rightarrow> gen_state \<Rightarrow> gen_state" where
  "gen_updateSize width height s =
     s\<lparr>g_canvas_width := width, g_canvas_height := height, g_playerX := width / 2\<rparr>"

text \<open>
  handleMouse; \<open>x\<close> is the pointer's offset from the canvas's left edge. The facing
  direction it also records is display state and left out.
\<close>

definition gen_handleMouse :: "real \<Rightarrow> gen_state \<Rightarrow> gen_state" where
  "gen_handleMouse x s =
     s\<lparr>g_playerX := max PLAYER_RADIUS (min (g_canvas_width s - PLAYER_RADIUS) x)\<rparr>"

definition getPlayerRect :: "gen_state \<Rightarrow> rect" where
  "getPlayerRect s =
     (case (g_playerImage s, g_selectedCharacter s) of
        (Some img, Some character) \<Rightarrow>
          (let playerHeight = g_canvas_height s * 0.23;
               aspectRatio = img_width img / img_height img;
               playerWidth = playerHeight * aspectRatio
           in \<lparr>r_x = g_playerX s - playerWidth / 2, r_y = g_canvas_height s - playerHeight,
               r_width = playerWidth, r_height = playerHeight\<rparr>)
      | _ \<Rightarrow>
          (let sz = PLAYER_RADIUS * 2
           in \<lparr>r_x = g_playerX s - PLAYER_RADIUS, r_y = g_canvas_height s - 60 - PLAYER_RADIUS,
               r_width = sz, r_height = sz\<rparr>))"

definition getEnemyRect :: "image option \<Rightarrow> gen_enemy \<Rightarrow> rect" where
  "getEnemyRect enemyImage enemy =
     (case enemyImage of
        None \<Rightarrow>
          (let sz = (ge_size enemy / 100) * 32
           in \<lparr>r_x = ge_x enemy - sz / 2, r_y = ge_y enemy - sz / 2,
               r_width = sz, r_height = sz\<rparr>)
      | Some img \<Rightarrow>
          (let enemyHeight = ge_size enemy;
               aspectRatio = img_width img / img_height img;
               enemyWidth = enemyHeight * aspectRatio
           in \<lparr>r_x = ge_x enemy - enemyWidth / 2, r_y = ge_y enemy - enemyHeight / 2,
               r_width = enemyWidth, r_height = enemyHeight\<rparr>))"

definition getItemRect :: "gen_item \<Rightarrow> rect" where
  "getItemRect item =
     (let sz = 80
      in \<lparr>r_x = gi_x item - sz / 2, r_y = gi_y item - sz / 2,
          r_width = sz, r_height = sz\<rparr>)"

text \<open>
  checkCollisions of the generic engine, in three parts. The enemy part runs only while
  not invulnerable and returns from the whole function at the first overlapping enemy
  (\<open>find\<close> is that first enemy): it arms invulnerability for 1500 ms and calls loseHeart.
  The enemy stays in the list.
\<close>

definition gen_collectiblePart :: "rect \<Rightarrow> gen_state \<Rightarrow> gen_state" where
  "gen_collectiblePart playerRect s =
     (case g_collectible s of
        None \<Rightarrow> s
      | Some collectible \<Rightarrow>
          if rectsOverlap playerRect (getItemRect collectible)
          then s\<lparr>g_hearts := gainHeart (g_hearts s), g_collectible := None\<rparr>
          else if gi_y collectible > g_canvas_height s + 20
          then s\<lparr>g_collectible := None\<rparr>
          else s)"

definition gen_pointItemPart :: "rect \<Rightarrow> gen_state \<Rightarrow> gen_state" where
  "gen_pointItemPart playerRect s =
     (case g_pointItem s of
        None \<Rightarrow> s
      | Some pointItem \<Rightarrow>
          if rectsOverlap playerRect (getItemRect pointItem)
          then s\<lparr>g_score := g_score s + 10, g_pointItem := None\<rparr>
          else if gi_y pointItem > g_canvas_height s + 20
          then s\<lparr>g_pointItem := None\<rparr>
          else s)"

definition gen_checkCollisions :: "int \<Rightarrow> gen_state \<Rightarrow> gen_state" where
  "gen_checkCollisions now s =
     (let playerRect = getPlayerRect s;
          hit = (if g_isInvulnerable s then None
                 else find (\<lambda>enemy. rectsOverlap playerRect (getEnemyRect (g_enemyImage s) enemy))
                        (g_enemies s))
      in case hit of
           Some enemy \<Rightarrow> (setInvulnerable (now + 1500) s)\<lparr>g_hearts := loseHeart (g_hearts s)\<rparr>
         | None \<Rightarrow> gen_pointItemPart playerRect (gen_collectiblePart playerRect s))"

text \<open>The effect that calls checkCollisions ("Main collision check in game loop").\<close>

definition gen_collisionEffect :: "int \<Rightarrow> gen_state \<Rightarrow> gen_state" where
  "gen_collisionEffect now s =
     (if \<not> g_running s \<or> g_canvas_width s = 0 then s else gen_checkCollisions now s)"

text \<open>\<open>gameDuration || defaultDuration\<close>: an absent or zero prop gives 30000.\<close>

definition gen_duration :: "int option \<Rightarrow> int" where
  "gen_duration gameDuration =
     (case gameDuration of None \<Rightarrow> 30000 | Some d \<Rightarrow> if d = 0 then 30000 else d)"

text \<open>
  The end-minigame effect. Its cleanup clears the interval of the previous run. The body
  reads minigameStartTime and remainingTime as rendered: the store write of a fresh start
  time and the setRemainingTime of this run are not visible to the tests below them.
  The time-out branch is only reached when the early-win test failed, so its own
  completeNeighborhood call, which repeats that test, never runs.
\<close>

definition gen_endEffect :: "int \<Rightarrow> gen_state \<Rightarrow> gen_state" where
  "gen_endEffect now s =
     (if \<not> g_running s then s\<lparr>g_interval := None\<rparr>
      else
        let duration = gen_duration (g_gameDuration s);
            elapsed = now - g_minigameStartTime s;
            remainingTimeInSeconds = max 0 ((duration - elapsed) div 1000);
            s1 = s\<lparr>g_minigameStartTime :=
                     (if g_minigameStartTime s = 0 then now else g_minigameStartTime s),
                   g_remainingTime := remainingTimeInSeconds,
                   g_interval := None\<rparr>
        in case (g_score s \<ge> 100, g_selectedNeighborhood s) of
             (True, Some n) \<Rightarrow>
               s1\<lparr>g_running := False,
                  g_fired := g_fired s @
                    [(0, CompleteNeighborhood n),
                     (400, if g_hasOnWin s then OnWin else SetGameState ''map'')]\<rparr>
           | _ \<Rightarrow>
               if g_remainingTime s \<le> 0
               then s1\<lparr>g_running := False,
                       g_interval := Some (g_minigameStartTime s, duration),
                       g_fired := g_fired s @
                         [(400, if g_score s \<ge> 100 \<and> g_hasOnWin s then OnWin
                                else if g_score s < 100 \<and> g_hasOnLose s then OnLose
                                else SetGameState ''map'')]\<rparr>
               else s1\<lparr>g_interval := Some (g_minigameStartTime s, duration)\<rparr>)"

text \<open>The interval callback of the end-minigame effect.\<close>

definition gen_intervalCallback :: "int \<Rightarrow> gen_state \<Rightarrow> gen_state" where
  "gen_intervalCallback now s =
     (case g_interval s of
        None \<Rightarrow> s
      | Some (minigameStartTime, duration) \<Rightarrow>
          (let elapsed = now - minigameStartTime
           in s\<lparr>g_remainingTime := max 0 ((duration - elapsed) div 1000)\<rparr>))"

text \<open>The hearts effect of the generic engine, re-run when the hearts change.\<close>

definition gen_heartsEffect :: "gen_state \<Rightarrow> gen_state" where
  "gen_heartsEffect s =
     (if g_heartsDeps s = Some (g_hearts s) then s
      else if g_hearts s \<le> 0
      then s\<lparr>g_running := False, g_heartsDeps := Some (g_hearts s),
             g_fired := g_fired s @
               [(400, if g_hasOnLose s then OnLose else SetGameState ''gameover'')]\<rparr>
      else s\<lparr>g_heartsDeps := Some (g_hearts s)\<rparr>)"

text \<open>checkInvuln, the animation-frame check of the invulnerability timer effect.\<close>

definition gen_checkInvuln :: "int \<Rightarrow> gen_state \<Rightarrow> gen_state" where
  "gen_checkInvuln now s =
     (if g_isInvulnerable s \<and> g_invulnerabilityEndTime s \<noteq> 0 \<and>
         now \<ge> g_invulnerabilityEndTime s
      then clearInvulnerable s else s)"

text \<open>One frame of the game loop: enemies fall and are culled, the two items fall.\<close>

definition gen_loop :: "gen_state \<Rightarrow> gen_state" where
  "gen_loop s =
     (if \<not> g_running s \<or> g_canvas_width s = 0 then s
      else s\<lparr>g_enemies :=
               filter (\<lambda>enemy. ge_y enemy < g_canvas_height s + 50)
                 (map (\<lambda>enemy. enemy\<lparr>ge_y := ge_y enemy + g_enemySpeed s\<rparr>) (g_enemies s)),
             g_collectible := map_option (\<lambda>c. c\<lparr>gi_y := gi_y c + 4\<rparr>) (g_collectible s),
             g_pointItem := map_option (\<lambda>c. c\<lparr>gi_y := gi_y c + 4\<rparr>) (g_pointItem s)\<rparr>)"

text \<open>
  The three spawners, each with the guard of its effect. The random position, size and
  type are the event's payload; an enemy starts at y = -30 and an item at y = 0.
\<close>

definition gen_spawnEnemy :: "real \<Rightarrow> real \<Rightarrow> int \<Rightarrow> gen_state \<Rightarrow> gen_state" where
  "gen_spawnEnemy x enemySize now s =
     (if \<not> g_running s \<or> g_canvas_width s = 0 then s
      else s\<lparr>g_enemies := g_enemies s @
               [\<lparr>ge_x = x, ge_y = - 30, ge_size = enemySize, ge_spawnTime = now\<rparr>]\<rparr>)"

definition gen_spawnCollectible :: "real \<Rightarrow> string \<Rightarrow> int \<Rightarrow> gen_state \<Rightarrow> gen_state" where
  "gen_spawnCollectible x itemType now s =
     (if \<not> g_running s \<or> g_collectible s \<noteq> None \<or> g_canvas_width s = 0 then s
      else s\<lparr>g_collectible := Some \<lparr>gi_x = x, gi_y = 0, gi_type = itemType, gi_spawnTime = now\<rparr>\<rparr>)"

definition gen_spawnPointItem :: "real \<Rightarrow> string \<Rightarrow> int \<Rightarrow> gen_state \<Rightarrow> gen_state" where
  "gen_spawnPointItem x itemType now s =
     (if \<not> g_running s \<or> g_pointItem s \<noteq> None \<or> g_canvas_width s = 0 then s
      else s\<lparr>g_pointItem := Some \<lparr>gi_x = x, gi_y = 0, gi_type = itemType, gi_spawnTime = now\<rparr>\<rparr>)"

datatype gen_event =
    GResize real real
  | GMouse real
  | GLoop
  | GCollisionEffect int
  | GEndEffect int
  | GInterval int
  | GHeartsEffect
  | GCheckInvuln int
  | GSpawnEnemy real real int
  | GSpawnCollectible real string int
  | GSpawnPointItem real string int

fun gen_step :: "gen_event \<Rightarrow> gen_state \<Rightarrow> gen_state" where
  "gen_step (GResize width height) s = gen_updateSize width height s"
| "gen_step (GMouse x) s = gen_handleMouse x s"
| "gen_step GLoop s = gen_loop s"
| "gen_step (GCollisionEffect now) s = gen_collisionEffect now s"
| "gen_step (GEndEffect now) s = gen_endEffect now s"
| "gen_step (GInterval now) s = gen_intervalCallback now s"
| "gen_step GHeartsEffect s = gen_heartsEffect s"
| "gen_step (GCheckInvuln now) s = gen_checkInvuln now s"
| "gen_step (GSpawnEnemy x enemySize now) s = gen_spawnEnemy x enemySize now s"
| "gen_step (GSpawnCollectible x itemType now) s = gen_spawnCollectible x itemType now s"
| "gen_step (GSpawnPointItem x itemType now) s = gen_spawnPointItem x itemType now s"

definition gen_run :: "gen_event list \<Rightarrow> gen_state \<Rightarrow> gen_state" where
  "gen_run evs s = fold gen_step evs s"

text \<open>
  A freshly mounted generic engine. The store fields and props are the arguments; the
  player image is given as already loaded or not.
\<close>

definition gen_init ::
  "int \<Rightarrow> int \<Rightarrow> string option \<Rightarrow> string option \<Rightarrow> image option \<Rightarrow> image option \<Rightarrow>
   bool \<Rightarrow> bool \<Rightarrow> int option \<Rightarrow> real \<Rightarrow> gen_state" where
  "gen_init hearts minigameStartTime neighborhood character playerImage enemyImage
     hasOnWin hasOnLose gameDuration enemySpeed =
     \<lparr>g_canvas_width = 0, g_canvas_height = 0, g_playerX = 0, g_enemies = [],
      g_collectible = None, g_pointItem = None, g_running = True, g_score = 0,
      g_remainingTime = 30, g_hearts = hearts, g_isInvulnerable = False,
      g_invulnerabilityEndTime = 0, g_minigameStartTime = minigameStartTime,
      g_selectedNeighborhood = neighborhood, g_selectedCharacter = character,
      g_playerImage = playerImage, g_enemyImage = enemyImage, g_hasOnWin = hasOnWin,
      g_hasOnLose = hasOnLose, g_gameDuration = gameDuration, g_enemySpeed = enemySpeed,
      g_interval = None, g_heartsDeps = None, g_fired = []\<rparr>"

section \<open>MemadionMinigame\<close>

definition CHAIR_TYPE_WEIGHTS :: "(string \<times> real) list" where
  "CHAIR_TYPE_WEIGHTS = [(''red'', 1), (''white'', 4)]"

text \<open>The keys of CHAIR_TYPES, in the order Object.keys lists them.\<close>

definition CHAIR_TYPES_keys :: "string list" where
  "CHAIR_TYPES_keys = [''red'', ''white'']"

definition mem_GAME_DURATION :: int where "mem_GAME_DURATION = 20000"
definition MAX_CHAIRS :: nat where "MAX_CHAIRS = 4"

text \<open>
  The for loop of randomChairType over the weight entries: \<open>Some\<close> is a return from inside
  the loop, \<open>None\<close> is falling out of it.
\<close>

fun weightedWalk :: "(string \<times> real) list \<Rightarrow> real \<Rightarrow> string option" where
  "weightedWalk [] random = None"
| "weightedWalk ((chairType, weight) # rest) random =
     (if random < weight then Some chairType else weightedWalk rest (random - weight))"

text \<open>
  randomChairType of a draw \<open>random\<close> (Math.random() times the total weight already
  applied), and of the raw Math.random() value \<open>u\<close>. Falling out of the loop returns the
  first key of CHAIR_TYPES.
\<close>

definition chairTypeOfDraw :: "real \<Rightarrow> string" where
  "chairTypeOfDraw random =
     (case weightedWalk CHAIR_TYPE_WEIGHTS random of
        Some chairType \<Rightarrow> chairType
      | None \<Rightarrow> hd CHAIR_TYPES_keys)"

definition randomChairType :: "real \<Rightarrow> string" where
  "randomChairType u =
     (let totalWeight = sum_list (map snd CHAIR_TYPE_WEIGHTS)
      in chairTypeOfDraw (u * totalWeight))"

record chair =
  c_x :: real
  c_y :: real
  c_size :: real
  c_type :: string
  c_speed :: real
  c_direction_x :: real
  c_direction_y :: real
  c_rotation :: real
  c_spinSpeed :: real
  c_spawnTime :: int

text \<open>
  The state of one Memadion session. \<open>m_timer\<close> is the interval armed by the game-timer
  effect, with the startTime its callback closed over. \<open>m_spawnChains\<close> lists the pending
  setTimeout calls of spawnChair, each with the chairs.length its closure captured.
\<close>

record mem_state =
  m_canvas_width :: real
  m_canvas_height :: real
  m_playerX :: real
  m_playerY :: real
  m_running :: bool
  m_startTime :: int
  m_timeLeft :: int
  m_score :: int
  m_lifeLost :: bool
  m_chairs :: "chair list"
  m_hearts :: int
  m_timer :: "int option"
  m_spawnChains :: "nat list"
  m_fired :: "emitted list"

definition mem_updateSize :: "real \<Rightarrow> real \<Rightarrow> mem_state \<Rightarrow> mem_state" where
  "mem_updateSize width height s =
     s\<lparr>m_canvas_width := width, m_canvas_height := height,
       m_playerX := width / 2, m_playerY := height / 2\<rparr>"

definition mem_handleMouse :: "real \<Rightarrow> real \<Rightarrow> mem_state \<Rightarrow> mem_state" where
  "mem_handleMouse x y s =
     s\<lparr>m_playerX := max PLAYER_RADIUS (min (m_canvas_width s - PLAYER_RADIUS) x),
       m_playerY := max PLAYER_RADIUS (min (m_canvas_height s - PLAYER_RADIUS) y)\<rparr>"

text \<open>The "Start game timer" effect.\<close>

definition mem_startEffect :: "int \<Rightarrow> mem_state \<Rightarrow> mem_state" where
  "mem_startEffect now s =
     (if \<not> m_running s \<or> m_canvas_width s = 0 then s
      else if m_startTime s = 0 then s\<lparr>m_startTime := now\<rparr> else s)"

text \<open>
  The "Game timer" effect: the cleanup clears the old interval and the body arms a new one
  unless the guard returns first.
\<close>

definition mem_timerEffect :: "mem_state \<Rightarrow> mem_state" where
  "mem_timerEffect s =
     (if \<not> m_running s \<or> m_startTime s = 0 then s\<lparr>m_timer := None\<rparr>
      else s\<lparr>m_timer := Some (m_startTime s)\<rparr>)"

text \<open>The interval callback of the game timer.\<close>

definition mem_timerCallback :: "int \<Rightarrow> mem_state \<Rightarrow> mem_state" where
  "mem_timerCallback now s =
     (case m_timer s of
        None \<Rightarrow> s
      | Some startTime \<Rightarrow>
          (let elapsed = now - startTime;
               remaining = mem_GAME_DURATION - elapsed
           in if remaining \<le> 0
              then s\<lparr>m_timer := None, m_timeLeft := 0, m_running := False,
                     m_fired := m_fired s @ [(400, OnWin)]\<rparr>
              else s\<lparr>m_timeLeft := remaining,
                     m_score := \<lfloor>(real_of_int elapsed / 1000) * 5\<rfloor>\<rparr>))"

text \<open>One frame of the game loop: chairs move, spin and are culled.\<close>

definition mem_loop :: "mem_state \<Rightarrow> mem_state" where
  "mem_loop s =
     (if \<not> m_running s \<or> m_canvas_width s = 0 then s
      else s\<lparr>m_chairs :=
               filter
                 (\<lambda>chair. let margin = c_size chair * 2
                          in c_x chair > - margin \<and> c_x chair < m_canvas_width s + margin \<and>
                             c_y chair > - margin \<and> c_y chair < m_canvas_height s + margin)
                 (map (\<lambda>chair. chair\<lparr>c_x := c_x chair + c_direction_x chair * c_speed chair,
                                     c_y := c_y chair + c_direction_y chair * c_speed chair,
                                     c_rotation := c_rotation chair + c_spinSpeed chair\<rparr>)
                    (m_chairs s))\<rparr>)"

text \<open>
  The "Spawn chairs" effect. A run that passes the guard defines spawnChair, a closure
  over the rendered chairs, and calls it: the call appends a chair (the chair with its
  random fields is the event's payload) and re-arms itself with setTimeout. The effect
  returns no cleanup, so nothing clears that timeout.
\<close>

definition mem_spawnChair :: "chair \<Rightarrow> mem_state \<Rightarrow> mem_state" where
  "mem_spawnChair newChair s =
     (if \<not> m_running s \<or> m_canvas_width s = 0 \<or> length (m_chairs s) \<ge> MAX_CHAIRS then s
      else s\<lparr>m_chairs := m_chairs s @ [newChair],
             m_spawnChains := m_spawnChains s @ [length (m_chairs s)]\<rparr>)"

text \<open>
  The call of spawnChair made by the \<open>k\<close>-th pending timeout. Its only test is
  \<open>chairs.length >= MAX_CHAIRS\<close> on the chairs it closed over; it reads neither
  \<open>running\<close> nor the current chairs. Past the test it appends a chair and re-arms itself;
  failing it, it returns and the chain ends.
\<close>

definition mem_spawnTimeout :: "nat \<Rightarrow> chair \<Rightarrow> mem_state \<Rightarrow> mem_state" where
  "mem_spawnTimeout k newChair s =
     (if k \<ge> length (m_spawnChains s) then s
      else if m_spawnChains s ! k \<ge> MAX_CHAIRS
      then s\<lparr>m_spawnChains := take k (m_spawnChains s) @ drop (Suc k) (m_spawnChains s)\<rparr>
      else s\<lparr>m_chairs := m_chairs s @ [newChair]\<rparr>)"

text \<open>The test inside the collision loop, for one chair.\<close>

definition chairHits :: "real \<Rightarrow> real \<Rightarrow> chair \<Rightarrow> bool" where
  "chairHits playerX playerY chair =
     (let playerHitboxRadius = PLAYER_RADIUS * 0.8;
          dx = c_x chair - playerX;
          dy = c_y chair - playerY;
          chairHitboxRadius = c_size chair / 2.5;
          dist = sqrt (dx * dx + dy * dy)
      in dist < playerHitboxRadius + chairHitboxRadius)"

text \<open>
  The "Collision detection & win/lose logic" effect. The loop breaks at the first chair
  that hits; \<open>hearts\<close> in the test is the rendered value, before loseHeart.
\<close>

definition mem_collisionEffect :: "mem_state \<Rightarrow> mem_state" where
  "mem_collisionEffect s =
     (if \<not> m_running s \<or> m_canvas_width s = 0 then s
      else if m_lifeLost s then s
      else case find (chairHits (m_playerX s) (m_playerY s)) (m_chairs s) of
             None \<Rightarrow> s
           | Some chair \<Rightarrow>
               s\<lparr>m_lifeLost := True, m_hearts := loseHeart (m_hearts s), m_running := False,
                 m_fired := m_fired s @
                   [(400, if m_hearts s - 1 \<le> 0 then SetGameState ''gameover'' else OnLose)]\<rparr>)"

datatype mem_event =
    MResize real real
  | MMouse real real
  | MStartEffect int
  | MTimerEffect
  | MTimerTick int
  | MLoop
  | MSpawnChair chair
  | MSpawnTimeout nat chair
  | MCollisionEffect

fun mem_step :: "mem_event \<Rightarrow> mem_state \<Rightarrow> mem_state" where
  "mem_step (MResize width height) s = mem_updateSize width height s"
| "mem_step (MMouse x y) s = mem_handleMouse x y s"
| "mem_step (MStartEffect now) s = mem_startEffect now s"
| "mem_step MTimerEffect s = mem_timerEffect s"
| "mem_step (MTimerTick now) s = mem_timerCallback now s"
| "mem_step MLoop s = mem_loop s"
| "mem_step (MSpawnChair newChair) s = mem_spawnChair newChair s"
| "mem_step (MSpawnTimeout k newChair) s = mem_spawnTimeout k newChair s"
| "mem_step MCollisionEffect s = mem_collisionEffect s"

definition mem_run :: "mem_event list \<Rightarrow> mem_state \<Rightarrow> mem_state" where
  "mem_run evs s = fold mem_step evs s"

definition mem_init :: "int \<Rightarrow> mem_state" where
  "mem_init hearts =
     \<lparr>m_canvas_width = 0, m_canvas_height = 0, m_playerX = 0, m_playerY = 0,
      m_running = True, m_startTime = 0, m_timeLeft = mem_GAME_DURATION, m_score = 0,
      m_lifeLost = False, m_chairs = [], m_hearts = hearts, m_timer = None,
      m_spawnChains = [], m_fired = []\<rparr>"

section \<open>Runs and invariants used by the properties\<close>

text \<open>The player's x lies within half the Park hitbox width of both canvas edges.\<close>

definition park_xInBounds :: "park_state \<Rightarrow> bool" where
  "park_xInBounds s =
     (r_width (getPlayerHitbox s) / 2 \<le> p_playerX s \<and>
      p_playerX s \<le> p_canvas_width s - r_width (getPlayerHitbox s) / 2)"

text \<open>The player's x lies within PLAYER_RADIUS of both canvas edges.\<close>

definition gen_xInRadius :: "gen_state \<Rightarrow> bool" where
  "gen_xInRadius g =
     (PLAYER_RADIUS \<le> g_playerX g \<and> g_playerX g \<le> g_canvas_width g - PLAYER_RADIUS)"

text \<open>The states a session passes through: the start state and the state after each event.\<close>

fun statesAlong :: "('e \<Rightarrow> 's \<Rightarrow> 's) \<Rightarrow> 'e list \<Rightarrow> 's \<Rightarrow> 's list" where
  "statesAlong step [] s = [s]"
| "statesAlong step (e # es) s = s # statesAlong step es (step e s)"

text \<open>
  The Date.now() reading an event of the Memadion session makes, and the condition that
  the readings along a run never go backwards (starting from \<open>t\<close>).
\<close>

fun mem_eventTime :: "mem_event \<Rightarrow> int option" where
  "mem_eventTime (MStartEffect now) = Some now"
| "mem_eventTime (MTimerTick now) = Some now"
| "mem_eventTime _ = None"

fun mem_clockOk :: "int \<Rightarrow> mem_event list \<Rightarrow> bool" where
  "mem_clockOk t [] = True"
| "mem_clockOk t (ev # evs) =
     (case mem_eventTime ev of
        None \<Rightarrow> mem_clockOk t evs
      | Some now \<Rightarrow> t \<le> now \<and> mem_clockOk now evs)"

text \<open>
  What holds of a Memadion session at clock reading \<open>t\<close>: before the start time is set
  the score is 0 and no interval is armed; afterwards the score is at most the score of
  the elapsed time, and an armed interval closed over the session's start time.
\<close>

definition mem_scoreInv :: "int \<Rightarrow> mem_state \<Rightarrow> bool" where
  "mem_scoreInv t s =
     (if m_startTime s = 0 then m_score s = 0 \<and> m_timer s = None
      else m_startTime s \<le> t \<and>
           m_score s \<le> \<lfloor>(real_of_int (t - m_startTime s) / 1000) * 5\<rfloor> \<and>
           (m_timer s = None \<or> m_timer s = Some (m_startTime s)))"

text \<open>
  The Date.now() reading at an event of the Park session (the time of a commit, of a call
  of spawnSpray and of a timer tick), the condition that the readings along a run never
  go backwards (starting from \<open>t\<close>), and the last reading of a run.
\<close>

fun park_eventTime :: "park_event \<Rightarrow> int option" where
  "park_eventTime (PSpawnSpray now u) = Some now"
| "park_eventTime (PCommit now) = Some now"
| "park_eventTime (PTimerTick now) = Some now"
| "park_eventTime _ = None"

fun park_clockOk :: "int \<Rightarrow> park_event list \<Rightarrow> bool" where
  "park_clockOk t [] = True"
| "park_clockOk t (ev # evs) =
     (case park_eventTime ev of
        None \<Rightarrow> park_clockOk t evs
      | Some now \<Rightarrow> t \<le> now \<and> park_clockOk now evs)"

fun park_clockAfter :: "int \<Rightarrow> park_event list \<Rightarrow> int" where
  "park_clockAfter t [] = t"
| "park_clockAfter t (ev # evs) =
     park_clockAfter (case park_eventTime ev of None \<Rightarrow> t | Some now \<Rightarrow> now) evs"

text \<open>
  The score of a Park session plus the points of the sprays on screen, and what holds of
  a session at clock reading \<open>t > 0\<close>. Before the start time is set there is no score, no
  spray and no spray interval, and the spawner effect and the timer effect last ran with
  a failing guard. Afterwards the score and the sprays on screen are covered by one spray
  per SPRAY_SPAWN_INTERVAL since the start, counted up to the time the spray interval was
  armed or last due, and up to \<open>t\<close>.
\<close>

definition park_potential :: "park_state \<Rightarrow> int" where
  "park_potential s = p_score s + POINTS_FOR_SPRAY * int (length (p_sprays s))"

definition park_sprayInv :: "int \<Rightarrow> park_state \<Rightarrow> bool" where
  "park_sprayInv t s =
     (0 < t \<and>
      (if p_startTime s = 0
       then p_score s = 0 \<and> p_sprays s = [] \<and> p_sprayTimer s = None \<and>
            (case p_timerDeps s of
               None \<Rightarrow> True
             | Some (running, width, rest) \<Rightarrow> \<not> running \<or> width = 0) \<and>
            (case p_sprayDeps s of
               None \<Rightarrow> True
             | Some (running, width) \<Rightarrow> \<not> running \<or> width = 0)
       else p_startTime s \<le> t \<and>
            park_potential s
              \<le> POINTS_FOR_SPRAY * ((t - p_startTime s) div SPRAY_SPAWN_INTERVAL) \<and>
            (case p_sprayTimer s of
               None \<Rightarrow> True
             | Some (due, canvasWidth) \<Rightarrow>
                 park_potential s
                   \<le> POINTS_FOR_SPRAY * ((due - p_startTime s) div SPRAY_SPAWN_INTERVAL))))"




section \<open>Example sessions\<close>

text \<open>
  A Memadion session with five hearts on an 800 by 600 canvas: a chair enters from the
  left edge heading right at speed 3, the pointer is moved to the left edge at the
  chair's height, and eleven frames pass.
\<close>

definition mem_chair_reaches_player :: mem_state where
  "mem_chair_reaches_player =
     mem_run [MResize 800 600, MStartEffect 1000, MTimerEffect,
              MSpawnChair \<lparr>c_x = - 50, c_y = 300, c_size = 60, c_type = ''white'', c_speed = 3,
                           c_direction_x = 1, c_direction_y = 0, c_rotation = 0,
                           c_spinSpeed = 0.02, c_spawnTime = 1000\<rparr>,
              MMouse 0 300,
              MLoop, MLoop, MLoop, MLoop, MLoop, MLoop, MLoop, MLoop, MLoop, MLoop, MLoop]
       (mem_init 5)"

text \<open>
  A Park session with five hearts: two enemies enter from the right edge of a 400 by 600
  window, then the window is resized to 800 by 700, which recentres the player over them.
\<close>

definition park_two_enemies :: park_state where
  "park_two_enemies =
     park_run [PResize 400 600, PCommit 1000, PCommit 1000,
               PSpawnEnemy Roach1 3 False, PSpawnEnemy Rat 4 False, PResize 800 700]
       (park_init 5 (Some ''Park Hamesila''))"

text \<open>
  A session of the generic engine with five hearts and no images loaded: two enemies are
  spawned above the player and fall for six frames of a theme with enemySpeed 100.
\<close>

definition gen_two_enemies :: gen_state where
  "gen_two_enemies =
     gen_run [GResize 800 600, GEndEffect 1000, GHeartsEffect,
              GSpawnEnemy 400 100 1000, GSpawnEnemy 410 100 1000,
              GLoop, GLoop, GLoop, GLoop, GLoop, GLoop]
       (gen_init 5 1000 (Some ''Old North'') (Some ''nimrod'') None None True True None 100)"

text \<open>
  A Park session on an 800 by 200 canvas, mounted at time 1000, where a spray placed at
  the middle of the top edge overlaps the standing player. Each pickup is a call of
  spawnSpray, a frame, and the commit that the score change causes; the sprays come every
  3000 ms, the ninth at 28000.
\<close>

definition park_pickup :: "int \<Rightarrow> park_event list" where
  "park_pickup now = [PSpawnSpray now 0.5, PFrame, PCommit (now + 20)]"

definition park_nine_pickup_events :: "park_event list" where
  "park_nine_pickup_events =
     [PResize 800 200, PCommit 1000, PCommit 1000] @
     park_pickup 4000 @ park_pickup 7000 @ park_pickup 10000 @
     park_pickup 13000 @ park_pickup 16000 @ park_pickup 19000 @
     park_pickup 22000 @ park_pickup 25000 @ park_pickup 28000"

definition park_nine_pickups :: park_state where
  "park_nine_pickups = park_run park_nine_pickup_events (park_init 5 (Some ''Park Hamesila''))"

text \<open>
  The same session continued to its end: the tenth spray comes at 31000, when the game
  duration has elapsed, is picked up, and the timer tick after the commit resolves the
  session.
\<close>

definition park_tenth_at_expiry :: park_state where
  "park_tenth_at_expiry = park_run (park_pickup 31000) park_nine_pickups"

definition park_win_events :: "park_event list" where
  "park_win_events = park_nine_pickup_events @ park_pickup 31000 @ [PTimerTick 31120]"

text \<open>
  A session of the generic engine on an 800 by 100 canvas, where a point item spawned
  above the player overlaps it at once: nine pickups each followed by the end-minigame
  effect, and a tenth whose end-minigame effect has not run yet. The neighbourhood is a
  parameter.
\<close>

definition gen_point_pickup :: "int \<Rightarrow> gen_event list" where
  "gen_point_pickup now =
     [GSpawnPointItem 400 ''falafel'' now, GCollisionEffect now, GEndEffect now]"

definition gen_hundred_points :: "string option \<Rightarrow> gen_state" where
  "gen_hundred_points neighborhood =
     gen_run ([GResize 800 100, GEndEffect 1000, GHeartsEffect] @
              gen_point_pickup 1520 @ gen_point_pickup 2040 @ gen_point_pickup 2560 @
              gen_point_pickup 3080 @ gen_point_pickup 3600 @ gen_point_pickup 4120 @
              gen_point_pickup 4640 @ gen_point_pickup 5160 @ gen_point_pickup 5680 @
              [GSpawnPointItem 400 ''falafel'' 6200, GCollisionEffect 6200])
       (gen_init 5 1000 neighborhood (Some ''nimrod'') None None True True None 4.4)"

text \<open>
  A Park session entered with one heart, in which the same resize puts the player over
  one enemy: the state after the frame that takes the heart, and the state after the two
  commits that follow (the hearts effect stops the session in the first, the cleanups of
  the timer and spawner effects run in the second).
\<close>

definition park_no_hearts :: park_state where
  "park_no_hearts =
     park_run [PResize 400 600, PCommit 1000, PCommit 1000,
               PSpawnEnemy Roach1 3 False, PResize 800 700, PFrame]
       (park_init 1 (Some ''Park Hamesila''))"



text \<open>A session of the generic engine entered with one heart, after an enemy hit.\<close>

definition gen_no_hearts :: gen_state where
  "gen_no_hearts =
     gen_run [GResize 800 600, GEndEffect 1000, GHeartsEffect, GSpawnEnemy 400 100 1000,
              GLoop, GLoop, GLoop, GLoop, GLoop, GLoop, GCollisionEffect 1100]
       (gen_init 1 1000 (Some ''Old North'') (Some ''nimrod'') None None True True None 100)"



text \<open>
  A session of the generic engine on a 1000 by 1000 canvas with a 300 by 600 player image
  loaded, after the pointer moved to the left edge of the canvas.
\<close>

definition gen_at_left_edge :: gen_state where
  "gen_at_left_edge =
     gen_run [GResize 1000 1000, GMouse 0]
       (gen_init 5 1000 (Some ''Old North'') (Some ''nimrod'')
          (Some \<lparr>img_width = 300, img_height = 600\<rparr>) None True True None 4.4)"

text \<open>The first events of a Memadion session, with three timer ticks.\<close>

definition mem_first_ticks :: "mem_event list" where
  "mem_first_ticks =
     [MResize 800 600, MStartEffect 1000, MTimerEffect, MTimerTick 1100, MTimerTick 1400,
      MTimerTick 2000]"


section \<open>Evaluating the example sessions\<close>

lemmas park_eval =
  park_run_def park_init_def park_updateSize_def park_movePlayer_def park_spawnEnemy_def
  park_spawnSpray_def park_sprayEffect_def park_commit_def park_loop_def
  park_checkCollisions_def park_timerEffect_def
  park_timerCallback_def park_heartsEffect_def getPlayerHitbox_def park_enemyHitbox_def
  park_sprayHitbox_def park_enemyOffScreen_def rectsOverlap_def loseHeart_def
  GAME_DURATION_def PLAYER_WIDTH_def PLAYER_HEIGHT_def PLAYER_Y_POSITION_def
  MOVEMENT_SPEED_def SCORE_FOR_WIN_def POINTS_FOR_SPRAY_def ENEMY_Y_POSITION_def
  SPRAY_SPAWN_INTERVAL_def

lemmas gen_eval =
  gen_run_def gen_init_def gen_updateSize_def gen_handleMouse_def gen_loop_def
  gen_collisionEffect_def gen_checkCollisions_def gen_collectiblePart_def
  gen_pointItemPart_def gen_endEffect_def gen_intervalCallback_def gen_heartsEffect_def
  gen_checkInvuln_def gen_spawnEnemy_def gen_spawnCollectible_def gen_spawnPointItem_def
  gen_duration_def getPlayerRect_def getEnemyRect_def getItemRect_def setInvulnerable_def
  clearInvulnerable_def rectsOverlap_def loseHeart_def gainHeart_def PLAYER_RADIUS_def

lemmas mem_eval =
  mem_run_def mem_init_def mem_updateSize_def mem_spawnChair_def mem_spawnTimeout_def
  MAX_CHAIRS_def
  mem_startEffect_def mem_timerEffect_def mem_handleMouse_def mem_loop_def PLAYER_RADIUS_def
  mem_GAME_DURATION_def

lemma mem_chair_reaches_player_state:
  "mem_chair_reaches_player =
     \<lparr>m_canvas_width = 800, m_canvas_height = 600, m_playerX = 24, m_playerY = 300,
      m_running = True, m_startTime = 1000, m_timeLeft = 20000, m_score = 0,
      m_lifeLost = False,
      m_chairs = [\<lparr>c_x = - 17, c_y = 300, c_size = 60, c_type = ''white'', c_speed = 3,
                   c_direction_x = 1, c_direction_y = 0, c_rotation = 0.22,
                   c_spinSpeed = 0.02, c_spawnTime = 1000\<rparr>],
      m_hearts = 5, m_timer = Some 1000, m_spawnChains = [0], m_fired = []\<rparr>"
  by (simp add: mem_chair_reaches_player_def mem_eval)


lemma park_two_enemies_state:
  "park_two_enemies =
     \<lparr>p_canvas_width = 800, p_canvas_height = 700, p_playerX = 400, p_playerY = 620,
      p_running = True, p_score = 0, p_startTime = 1000, p_timeLeft = 30000,
      p_enemies =
        [\<lparr>pe_x = 400, pe_y = 580, pe_type = Roach1, pe_speed = - 3, pe_width = 60,
          pe_height = 35\<rparr>,
         \<lparr>pe_x = 400, pe_y = 580, pe_type = Rat, pe_speed = - 4, pe_width = 90,
          pe_height = 45\<rparr>],
      p_sprays = [], p_hearts = 5, p_selectedNeighborhood = Some ''Park Hamesila'',
      p_timer = Some (1000, 0),
      p_timerDeps = Some (True, 400, 1000, 0, Some ''Park Hamesila''),
      p_sprayTimer = Some (1000, 400), p_sprayDeps = Some (True, 400),
      p_heartsDeps = Some 5, p_fired = []\<rparr>"
  by (simp add: park_two_enemies_def park_eval)

lemma gen_two_enemies_state:
  "gen_two_enemies =
     \<lparr>g_canvas_width = 800, g_canvas_height = 600, g_playerX = 400,
      g_enemies =
        [\<lparr>ge_x = 400, ge_y = 570, ge_size = 100, ge_spawnTime = 1000\<rparr>,
         \<lparr>ge_x = 410, ge_y = 570, ge_size = 100, ge_spawnTime = 1000\<rparr>],
      g_collectible = None, g_pointItem = None, g_running = True, g_score = 0,
      g_remainingTime = 30, g_hearts = 5, g_isInvulnerable = False,
      g_invulnerabilityEndTime = 0, g_minigameStartTime = 1000,
      g_selectedNeighborhood = Some ''Old North'', g_selectedCharacter = Some ''nimrod'',
      g_playerImage = None, g_enemyImage = None, g_hasOnWin = True, g_hasOnLose = True,
      g_gameDuration = None, g_enemySpeed = 100, g_interval = Some (1000, 30000),
      g_heartsDeps = Some 5, g_fired = []\<rparr>"
  by (simp add: gen_two_enemies_def gen_eval)

lemma park_nine_pickups_state:
  "park_nine_pickups =
     \<lparr>p_canvas_width = 800, p_canvas_height = 200, p_playerX = 400, p_playerY = 120,
      p_running = True, p_score = 90, p_startTime = 1000, p_timeLeft = 30000,
      p_enemies = [], p_sprays = [], p_hearts = 5,
      p_selectedNeighborhood = Some ''Park Hamesila'', p_timer = Some (1000, 90),
      p_timerDeps = Some (True, 800, 1000, 90, Some ''Park Hamesila''),
      p_sprayTimer = Some (28000, 800), p_sprayDeps = Some (True, 800),
      p_heartsDeps = Some 5, p_fired = []\<rparr>"
  by (simp add: park_nine_pickups_def park_nine_pickup_events_def park_pickup_def park_eval)

lemma park_tenth_at_expiry_state:
  "park_tenth_at_expiry =
     \<lparr>p_canvas_width = 800, p_canvas_height = 200, p_playerX = 400, p_playerY = 120,
      p_running = True, p_score = 100, p_startTime = 1000, p_timeLeft = 30000,
      p_enemies = [], p_sprays = [], p_hearts = 5,
      p_selectedNeighborhood = Some ''Park Hamesila'', p_timer = Some (1000, 100),
      p_timerDeps = Some (True, 800, 1000, 100, Some ''Park Hamesila''),
      p_sprayTimer = Some (31000, 800), p_sprayDeps = Some (True, 800),
      p_heartsDeps = Some 5, p_fired = []\<rparr>"
  by (simp add: park_tenth_at_expiry_def park_nine_pickups_state park_pickup_def park_eval)

lemma park_win_events_run:
  "park_run park_win_events (park_init 5 (Some ''Park Hamesila'')) =
     park_step (PTimerTick 31120) park_tenth_at_expiry"
  by (simp add: park_win_events_def park_tenth_at_expiry_def park_nine_pickups_def park_run_def)

lemma gen_hundred_points_state:
  "gen_hundred_points neighborhood =
     \<lparr>g_canvas_width = 800, g_canvas_height = 100, g_playerX = 400, g_enemies = [],
      g_collectible = None, g_pointItem = None, g_running = True, g_score = 100,
      g_remainingTime = 25, g_hearts = 5, g_isInvulnerable = False,
      g_invulnerabilityEndTime = 0, g_minigameStartTime = 1000,
      g_selectedNeighborhood = neighborhood, g_selectedCharacter = Some ''nimrod'',
      g_playerImage = None, g_enemyImage = None, g_hasOnWin = True, g_hasOnLose = True,
      g_gameDuration = None, g_enemySpeed = 4.4, g_interval = Some (1000, 30000),
      g_heartsDeps = Some 5, g_fired = []\<rparr>"
  by (simp add: gen_hundred_points_def gen_point_pickup_def gen_eval)

lemma park_no_hearts_state:
  "park_no_hearts =
     \<lparr>p_canvas_width = 800, p_canvas_height = 700, p_playerX = 400, p_playerY = 620,
      p_running = True, p_score = 0, p_startTime = 1000, p_timeLeft = 30000,
      p_enemies = [], p_sprays = [], p_hearts = 0,
      p_selectedNeighborhood = Some ''Park Hamesila'', p_timer = Some (1000, 0),
      p_timerDeps = Some (True, 400, 1000, 0, Some ''Park Hamesila''),
      p_sprayTimer = Some (1000, 400), p_sprayDeps = Some (True, 400),
      p_heartsDeps = Some 1, p_fired = []\<rparr>"
  by (simp add: park_no_hearts_def park_eval)



lemmas park_defs =
  park_updateSize_def park_movePlayer_def park_spawnEnemy_def park_spawnSpray_def
  park_sprayEffect_def park_commit_def park_loop_def park_checkCollisions_def
  park_timerEffect_def park_timerCallback_def park_heartsEffect_def

lemmas gen_defs =
  gen_updateSize_def gen_handleMouse_def gen_loop_def gen_collisionEffect_def
  gen_checkCollisions_def gen_collectiblePart_def gen_pointItemPart_def gen_endEffect_def
  gen_intervalCallback_def gen_heartsEffect_def gen_checkInvuln_def gen_spawnEnemy_def
  gen_spawnCollectible_def gen_spawnPointItem_def setInvulnerable_def clearInvulnerable_def

lemmas mem_defs =
  mem_updateSize_def mem_handleMouse_def mem_startEffect_def mem_timerEffect_def
  mem_timerCallback_def mem_loop_def mem_spawnChair_def mem_spawnTimeout_def
  mem_collisionEffect_def

lemma gen_at_left_edge_state:
  "gen_at_left_edge =
     \<lparr>g_canvas_width = 1000, g_canvas_height = 1000, g_playerX = 24, g_enemies = [],
      g_collectible = None, g_pointItem = None, g_running = True, g_score = 0,
      g_remainingTime = 30, g_hearts = 5, g_isInvulnerable = False,
      g_invulnerabilityEndTime = 0, g_minigameStartTime = 1000,
      g_selectedNeighborhood = Some ''Old North'', g_selectedCharacter = Some ''nimrod'',
      g_playerImage = Some \<lparr>img_width = 300, img_height = 600\<rparr>, g_enemyImage = None,
      g_hasOnWin = True, g_hasOnLose = True, g_gameDuration = None, g_enemySpeed = 4.4,
      g_interval = None, g_heartsDeps = None, g_fired = []\<rparr>"
  by (simp add: gen_at_left_edge_def gen_eval)

section \<open>Weighted chair-type selection\<close>

text \<open>
  The walk is cumulative-weight selection: over non-negative weights it returns the entry
  whose cumulative interval holds the draw.
\<close>

lemma weightedWalk_cumulative:
  "(\<And>x. x \<in> set pre \<Longrightarrow> 0 \<le> snd x) \<Longrightarrow> sum_list (map snd pre) \<le> r \<Longrightarrow>
   r < sum_list (map snd pre) + w \<Longrightarrow> weightedWalk (pre @ (t, w) # post) r = Some t"
proof (induction pre arbitrary: r)
  case Nil
  then show ?case by simp
next
  case (Cons a pre)
  obtain t' w' where a: "a = (t', w')" by (cases a)
  have nn: "0 \<le> sum_list (map snd pre)"
    using Cons.prems(1) by (intro sum_list_nonneg) auto
  have "\<not> r < w'" using Cons.prems(2) nn a by simp
  moreover have "weightedWalk (pre @ (t, w) # post) (r - w') = Some t"
    using Cons.prems a by (intro Cons.IH) auto
  ultimately show ?case using a by simp
qed

text \<open>For any weight table, a draw in \<open>[0, totalWeight)\<close> returns from inside the loop.\<close>

lemma weightedWalk_returns:
  "0 \<le> r \<Longrightarrow> r < sum_list (map snd ws) \<Longrightarrow>
   \<exists>t. weightedWalk ws r = Some t \<and> t \<in> fst ` set ws"
proof (induction ws arbitrary: r)
  case Nil
  then show ?case by simp
next
  case (Cons a ws)
  obtain t' w' where a: "a = (t', w')" by (cases a)
  show ?case
  proof (cases "r < w'")
    case True
    then show ?thesis using a by simp
  next
    case False
    then have "\<exists>t. weightedWalk ws (r - w') = Some t \<and> t \<in> fst ` set ws"
      using Cons.prems a by (intro Cons.IH) auto
    then show ?thesis using a False by auto
  qed
qed

lemma randomChairType_of_random:
  "0 \<le> u \<Longrightarrow> u < 1 \<Longrightarrow> randomChairType u = (if u * 5 < 1 then ''red'' else ''white'')"
  by (auto simp: randomChairType_def CHAIR_TYPE_WEIGHTS_def chairTypeOfDraw_def)

text \<open>
  Claim C7. With the chair weights red 1 and white 4 the total weight is 5, and for every
  draw \<open>r\<close> in \<open>[0, 5)\<close> the loop of randomChairType returns from inside the walk (the
  fallback after the loop is not reached), with 'red' exactly when \<open>r < 1\<close> and 'white'
  exactly when \<open>1 \<le> r < 5\<close>. For any weight table, a draw in \<open>[0, totalWeight)\<close> returns
  one of the table's entries from inside the walk.
\<close>

theorem randomChairType_selection:
  assumes "0 \<le> r" and "r < sum_list (map snd CHAIR_TYPE_WEIGHTS)"
  shows "sum_list (map snd CHAIR_TYPE_WEIGHTS) = 5 \<and>
         weightedWalk CHAIR_TYPE_WEIGHTS r = Some (chairTypeOfDraw r) \<and>
         (chairTypeOfDraw r = ''red'' \<longleftrightarrow> r < 1) \<and>
         (chairTypeOfDraw r = ''white'' \<longleftrightarrow> 1 \<le> r \<and> r < 5) \<and>
         (\<forall>ws r'. 0 \<le> r' \<and> r' < sum_list (map snd ws) \<longrightarrow>
            (\<exists>t. weightedWalk ws r' = Some t \<and> t \<in> fst ` set ws))"
proof -
  have "sum_list (map snd CHAIR_TYPE_WEIGHTS) = 5 \<and>
         weightedWalk CHAIR_TYPE_WEIGHTS r = Some (chairTypeOfDraw r) \<and>
         (chairTypeOfDraw r = ''red'' \<longleftrightarrow> r < 1) \<and>
         (chairTypeOfDraw r = ''white'' \<longleftrightarrow> 1 \<le> r \<and> r < 5)"
    using assms by (auto simp: CHAIR_TYPE_WEIGHTS_def chairTypeOfDraw_def)
  then show ?thesis using weightedWalk_returns by blast
qed

theorem randomChairType_selection_witness:
  "(0::real) \<le> 3 \<and> (3::real) < sum_list (map snd CHAIR_TYPE_WEIGHTS) \<and>
   weightedWalk CHAIR_TYPE_WEIGHTS 3 = Some ''white'' \<and> chairTypeOfDraw 3 = ''white''"
  using randomChairType_selection [of 3]
  by (simp add: CHAIR_TYPE_WEIGHTS_def chairTypeOfDraw_def)

section \<open>Hearts lost in one collision check\<close>

lemma loseHeart_nonneg: "0 \<le> loseHeart h"
  by (simp add: loseHeart_def)

lemma loseHeart_ge: "h - 1 \<le> loseHeart h"
  by (simp add: loseHeart_def)

lemma gainHeart_ge: "h \<le> 5 \<Longrightarrow> h \<le> gainHeart h"
  by (simp add: gainHeart_def)

lemma find_Some_holds: "find P xs = Some x \<Longrightarrow> x \<in> set xs \<and> P x"
  by (induction xs) (auto split: if_splits)

lemma park_enemyLoop_hearts:
  "0 \<le> h \<Longrightarrow>
   snd (park_enemyLoop w ph es kept h) =
     max 0 (h - int (length (filter (\<lambda>e. rectsOverlap ph (park_enemyHitbox e)) es)))"
proof (induction es arbitrary: kept h)
  case Nil
  then show ?case by simp
next
  case (Cons e es)
  show ?case
  proof (cases "rectsOverlap ph (park_enemyHitbox e)")
    case True
    have "snd (park_enemyLoop w ph es kept (loseHeart h)) =
            max 0 (loseHeart h - int (length (filter (\<lambda>e. rectsOverlap ph (park_enemyHitbox e)) es)))"
      by (rule Cons.IH) (rule loseHeart_nonneg)
    then show ?thesis using True Cons.prems by (simp add: loseHeart_def)
  next
    case False
    then show ?thesis using Cons by simp
  qed
qed

lemma park_enemyLoop_kept:
  "fst (park_enemyLoop w ph es kept h) =
     rev (filter (\<lambda>e. \<not> rectsOverlap ph (park_enemyHitbox e) \<and> \<not> park_enemyOffScreen w e) es)
       @ kept"
  by (induction es arbitrary: kept h) simp_all

lemma park_checkCollisions_hearts:
  "0 \<le> p_hearts t \<Longrightarrow>
   p_hearts (park_checkCollisions t) =
     max 0 (p_hearts t -
       int (length (filter (\<lambda>e. rectsOverlap (getPlayerHitbox t) (park_enemyHitbox e))
              (p_enemies t))))"
  by (simp add: park_checkCollisions_def Let_def park_enemyLoop_hearts
        flip: rev_filter)

lemma park_checkCollisions_enemies:
  "p_enemies (park_checkCollisions t) =
     filter (\<lambda>e. \<not> rectsOverlap (getPlayerHitbox t) (park_enemyHitbox e) \<and>
                 \<not> park_enemyOffScreen (p_canvas_width t) e) (p_enemies t)"
  by (simp add: park_checkCollisions_def Let_def park_enemyLoop_kept rev_filter)

lemma gen_parts_hearts:
  "h \<le> g_hearts s \<Longrightarrow> g_hearts s \<le> 5 \<Longrightarrow>
   h \<le> g_hearts (gen_pointItemPart r (gen_collectiblePart r s))"
  by (auto simp: gen_pointItemPart_def gen_collectiblePart_def gainHeart_def
           split: option.splits)

lemma gen_parts_enemies:
  "g_enemies (gen_pointItemPart r (gen_collectiblePart r s)) = g_enemies s"
  by (auto simp: gen_pointItemPart_def gen_collectiblePart_def split: option.splits)

lemma gen_checkCollisions_enemies:
  "g_enemies (gen_checkCollisions now s) = g_enemies s"
  by (auto simp: gen_checkCollisions_def Let_def setInvulnerable_def gen_parts_enemies
           split: option.splits)

lemma gen_checkCollisions_at_most_one:
  "g_hearts s \<le> 5 \<Longrightarrow> g_hearts s - g_hearts (gen_checkCollisions now s) \<le> 1"
  using gen_parts_hearts [of "g_hearts s" s "getPlayerRect s"] loseHeart_ge [of "g_hearts s"]
  by (auto simp: gen_checkCollisions_def Let_def setInvulnerable_def split: option.splits)

lemma gen_checkCollisions_invulnerable:
  "g_isInvulnerable s \<Longrightarrow> g_hearts s \<le> 5 \<Longrightarrow> g_hearts s \<le> g_hearts (gen_checkCollisions now s)"
  using gen_parts_hearts [of "g_hearts s" s "getPlayerRect s"]
  by (simp add: gen_checkCollisions_def Let_def)

lemma gen_checkCollisions_hit:
  assumes "\<not> g_isInvulnerable s"
    and "\<exists>enemy \<in> set (g_enemies s).
           rectsOverlap (getPlayerRect s) (getEnemyRect (g_enemyImage s) enemy)"
  shows "gen_checkCollisions now s =
           s\<lparr>g_isInvulnerable := True, g_invulnerabilityEndTime := now + 1500,
             g_hearts := loseHeart (g_hearts s)\<rparr>"
proof -
  obtain enemy where
    "find (\<lambda>enemy. rectsOverlap (getPlayerRect s) (getEnemyRect (g_enemyImage s) enemy))
       (g_enemies s) = Some enemy"
    using assms(2) by (cases "find (\<lambda>enemy. rectsOverlap (getPlayerRect s)
         (getEnemyRect (g_enemyImage s) enemy)) (g_enemies s)") (auto simp: find_None_iff)
  then show ?thesis
    using assms(1) by (simp add: gen_checkCollisions_def Let_def setInvulnerable_def)
qed

text \<open>
  Claim C1, as the code has it. In the generic engine one call of checkCollisions deducts
  at most one heart however many enemies overlap the player: while invulnerable no heart
  is lost, and otherwise the first overlapping enemy arms invulnerability for 1500 ms,
  calls loseHeart once and ends the call. The enemy list is left as it was (the enemy
  that hit is not removed). The Park variant has no invulnerability: its checkCollisions
  calls loseHeart for every overlapping enemy and removes each of them, so the hearts drop
  by the number of overlapping enemies (stopping at 0).
\<close>

theorem collisions_hearts_per_check:
  assumes "g_hearts s \<le> 5" and "0 \<le> p_hearts t"
  shows "g_hearts s - g_hearts (gen_checkCollisions now s) \<le> 1 \<and>
         g_enemies (gen_checkCollisions now s) = g_enemies s \<and>
         (if g_isInvulnerable s
          then g_hearts s \<le> g_hearts (gen_checkCollisions now s)
          else if \<exists>enemy \<in> set (g_enemies s).
                    rectsOverlap (getPlayerRect s) (getEnemyRect (g_enemyImage s) enemy)
          then gen_checkCollisions now s =
                 s\<lparr>g_isInvulnerable := True, g_invulnerabilityEndTime := now + 1500,
                   g_hearts := loseHeart (g_hearts s)\<rparr>
          else g_hearts s \<le> g_hearts (gen_checkCollisions now s)) \<and>
         p_hearts (park_checkCollisions t) =
           max 0 (p_hearts t -
             int (length (filter (\<lambda>e. rectsOverlap (getPlayerHitbox t) (park_enemyHitbox e))
                    (p_enemies t)))) \<and>
         p_enemies (park_checkCollisions t) =
           filter (\<lambda>e. \<not> rectsOverlap (getPlayerHitbox t) (park_enemyHitbox e) \<and>
                       \<not> park_enemyOffScreen (p_canvas_width t) e) (p_enemies t)"
proof -
  have "g_hearts s \<le> g_hearts (gen_checkCollisions now s)"
    if "\<not> (\<exists>enemy \<in> set (g_enemies s).
              rectsOverlap (getPlayerRect s) (getEnemyRect (g_enemyImage s) enemy))"
  proof -
    have "find (\<lambda>enemy. rectsOverlap (getPlayerRect s) (getEnemyRect (g_enemyImage s) enemy))
            (g_enemies s) = None"
      using that by (simp add: find_None_iff)
    then show ?thesis
      using gen_parts_hearts [of "g_hearts s" s "getPlayerRect s"] assms(1)
      by (simp add: gen_checkCollisions_def Let_def)
  qed
  then show ?thesis
    using assms gen_checkCollisions_at_most_one [of s now] gen_checkCollisions_enemies [of now s]
      gen_checkCollisions_invulnerable [of s now] gen_checkCollisions_hit [of s now]
      park_checkCollisions_hearts [of t] park_checkCollisions_enemies [of t]
    by (simp only: if_split simp_thms) blast
qed

theorem collisions_hearts_per_check_witness:
  "g_hearts gen_two_enemies \<le> 5 \<and> 0 \<le> p_hearts park_two_enemies \<and>
   g_hearts gen_two_enemies - g_hearts (gen_checkCollisions 5000 gen_two_enemies) = 1 \<and>
   g_isInvulnerable (gen_checkCollisions 5000 gen_two_enemies) \<and>
   length (g_enemies (gen_checkCollisions 5000 gen_two_enemies)) = 2 \<and>
   p_hearts (park_checkCollisions park_two_enemies) = 3 \<and>
   p_enemies (park_checkCollisions park_two_enemies) = []"
proof -
  have h: "g_hearts gen_two_enemies \<le> 5" "0 \<le> p_hearts park_two_enemies"
    by (simp_all add: gen_two_enemies_state park_two_enemies_state)
  show ?thesis
    using collisions_hearts_per_check [OF h, of 5000] h
    by (simp add: gen_two_enemies_state park_two_enemies_state getPlayerRect_def
          getEnemyRect_def getPlayerHitbox_def park_enemyHitbox_def park_enemyOffScreen_def
          rectsOverlap_def loseHeart_def PLAYER_RADIUS_def PLAYER_WIDTH_def PLAYER_HEIGHT_def)
qed

text \<open>
  In the Park session above both enemies overlap the player in the same frame, and that
  one frame takes two hearts.
\<close>

theorem park_two_enemies_two_hearts:
  "p_running park_two_enemies \<and>
   length (filter (\<lambda>e. rectsOverlap (getPlayerHitbox park_two_enemies) (park_enemyHitbox e))
             (p_enemies park_two_enemies)) = 2 \<and>
   p_hearts park_two_enemies = 5 \<and>
   p_hearts (park_step PFrame park_two_enemies) = 3 \<and>
   \<not> (p_hearts park_two_enemies - p_hearts (park_step PFrame park_two_enemies) \<le> 1)"
  by (simp add: park_two_enemies_state park_eval)

section \<open>Radial collision of the chair-dodge variant\<close>

lemma chairHits_dist:
  "chairHits px py chair \<longleftrightarrow>
     dist (Complex (c_x chair) (c_y chair)) (Complex px py)
       < 0.8 * PLAYER_RADIUS + c_size chair / 2.5"
  by (simp add: chairHits_def dist_norm cmod_def power2_eq_square Let_def mult.commute)

lemma mem_collision_lifeLost:
  assumes "m_running s" and "m_canvas_width s \<noteq> 0" and "\<not> m_lifeLost s"
  shows "m_lifeLost (mem_collisionEffect s) \<longleftrightarrow>
           (\<exists>chair \<in> set (m_chairs s). chairHits (m_playerX s) (m_playerY s) chair)"
proof (cases "find (chairHits (m_playerX s) (m_playerY s)) (m_chairs s)")
  case None
  then have "\<not> (\<exists>chair \<in> set (m_chairs s). chairHits (m_playerX s) (m_playerY s) chair)"
    by (simp add: find_None_iff)
  moreover have "mem_collisionEffect s = s"
    using assms None by (simp add: mem_collisionEffect_def)
  ultimately show ?thesis using assms by simp
next
  case (Some chair)
  then show ?thesis
    using assms find_Some_holds [OF Some] by (auto simp: mem_collisionEffect_def)
qed

lemma mem_collision_hearts:
  "m_hearts (mem_collisionEffect s) \<noteq> m_hearts s \<Longrightarrow> m_lifeLost (mem_collisionEffect s)"
  by (auto simp: mem_collisionEffect_def split: if_splits option.splits)

text \<open>
  Claim C6. While a Memadion session is running (and no life was lost yet), the collision
  effect registers a hit exactly when some chair's centre is at Euclidean distance
  strictly less than \<open>0.8 * PLAYER_RADIUS + chair.size / 2.5\<close> from the player's centre;
  the test made for each chair is that comparison. Distances are taken in the plane of
  complex numbers, over the reals.
\<close>

theorem chair_collision_radial:
  assumes "m_running s" and "m_canvas_width s \<noteq> 0" and "\<not> m_lifeLost s"
  shows "(m_lifeLost (mem_collisionEffect s) \<longleftrightarrow>
            (\<exists>chair \<in> set (m_chairs s).
               dist (Complex (c_x chair) (c_y chair)) (Complex (m_playerX s) (m_playerY s))
                 < 0.8 * PLAYER_RADIUS + c_size chair / 2.5)) \<and>
         (\<forall>chair. chairHits (m_playerX s) (m_playerY s) chair \<longleftrightarrow>
               dist (Complex (c_x chair) (c_y chair)) (Complex (m_playerX s) (m_playerY s))
                 < 0.8 * PLAYER_RADIUS + c_size chair / 2.5)"
  using mem_collision_lifeLost [OF assms] by (simp only: chairHits_dist simp_thms)

theorem chair_collision_radial_witness:
  "m_running mem_chair_reaches_player \<and> m_canvas_width mem_chair_reaches_player \<noteq> 0 \<and>
   \<not> m_lifeLost mem_chair_reaches_player \<and>
   m_lifeLost (mem_collisionEffect mem_chair_reaches_player) \<and>
   dist (Complex (- 17) 300) (Complex 24 300) < 0.8 * PLAYER_RADIUS + 60 / 2.5"
proof -
  have s: "m_running mem_chair_reaches_player" "m_canvas_width mem_chair_reaches_player \<noteq> 0"
      "\<not> m_lifeLost mem_chair_reaches_player"
    by (simp_all add: mem_chair_reaches_player_state)
  have d: "dist (Complex (- 17) 300) (Complex 24 300) = 41"
    by (simp add: dist_norm cmod_def real_sqrt_unique)
  show ?thesis
    using chair_collision_radial [OF s] s d
    by (simp add: mem_chair_reaches_player_state PLAYER_RADIUS_def)
qed

section \<open>Host actions fired by a step\<close>

text \<open>Which actions each event adds to the action list, for the three components.\<close>

lemma park_step_newlyFired:
  "newlyFired (p_fired s) (p_fired (park_step ev s)) =
     (case ev of
        PTimerTick now \<Rightarrow>
          (case p_timer s of
             None \<Rightarrow> []
           | Some (startTime, score) \<Rightarrow>
               if GAME_DURATION \<le> now - startTime
               then (if SCORE_FOR_WIN \<le> score
                     then (case p_selectedNeighborhood s of
                             None \<Rightarrow> [] | Some n \<Rightarrow> [(0, CompleteNeighborhood n)]) @ [(0, OnWin)]
                     else [(0, OnLose)])
               else [])
      | PCommit now \<Rightarrow>
          (if p_heartsDeps s \<noteq> Some (p_hearts s) \<and> p_hearts s \<le> 0
           then [(400, SetGameState ''gameover'')] else [])
      | _ \<Rightarrow> [])"
  by (cases ev)
     (auto simp: newlyFired_def park_updateSize_def park_movePlayer_def park_spawnEnemy_def
        park_spawnSpray_def park_sprayEffect_def park_commit_def park_loop_def
        park_checkCollisions_def park_timerEffect_def
        park_timerCallback_def park_heartsEffect_def Let_def
        split: option.splits)

lemma gen_step_newlyFired:
  "newlyFired (g_fired s) (g_fired (gen_step ev s)) =
     (case ev of
        GEndEffect now \<Rightarrow>
          (if \<not> g_running s then []
           else case (100 \<le> g_score s, g_selectedNeighborhood s) of
                  (True, Some n) \<Rightarrow>
                    [(0, CompleteNeighborhood n),
                     (400, if g_hasOnWin s then OnWin else SetGameState ''map'')]
                | _ \<Rightarrow>
                    if g_remainingTime s \<le> 0
                    then [(400, if 100 \<le> g_score s \<and> g_hasOnWin s then OnWin
                                else if g_score s < 100 \<and> g_hasOnLose s then OnLose
                                else SetGameState ''map'')]
                    else [])
      | GHeartsEffect \<Rightarrow>
          (if g_heartsDeps s \<noteq> Some (g_hearts s) \<and> g_hearts s \<le> 0
           then [(400, if g_hasOnLose s then OnLose else SetGameState ''gameover'')] else [])
      | _ \<Rightarrow> [])"
  by (cases ev)
     (auto simp: newlyFired_def gen_updateSize_def gen_handleMouse_def gen_loop_def
        gen_collisionEffect_def gen_checkCollisions_def gen_collectiblePart_def
        gen_pointItemPart_def gen_endEffect_def gen_intervalCallback_def gen_heartsEffect_def
        gen_checkInvuln_def gen_spawnEnemy_def gen_spawnCollectible_def gen_spawnPointItem_def
        setInvulnerable_def clearInvulnerable_def Let_def
        split: option.splits bool.splits)

lemma mem_step_newlyFired:
  "newlyFired (m_fired s) (m_fired (mem_step ev s)) =
     (case ev of
        MTimerTick now \<Rightarrow>
          (case m_timer s of
             None \<Rightarrow> []
           | Some startTime \<Rightarrow>
               if mem_GAME_DURATION \<le> now - startTime then [(400, OnWin)] else [])
      | MCollisionEffect \<Rightarrow>
          (if m_running s \<and> m_canvas_width s \<noteq> 0 \<and> \<not> m_lifeLost s \<and>
              find (chairHits (m_playerX s) (m_playerY s)) (m_chairs s) \<noteq> None
           then [(400, if m_hearts s - 1 \<le> 0 then SetGameState ''gameover'' else OnLose)]
           else [])
      | _ \<Rightarrow> [])"
  by (cases ev)
     (auto simp: newlyFired_def mem_updateSize_def mem_handleMouse_def mem_startEffect_def
        mem_timerEffect_def mem_timerCallback_def mem_loop_def mem_spawnChair_def
        mem_spawnTimeout_def mem_collisionEffect_def Let_def
        split: option.splits)

lemma find_not_None: "(find P xs \<noteq> None) = (\<exists>x \<in> set xs. P x)"
  by (auto simp: find_None_iff)

section \<open>Sessions whose effects have caught up with the stop\<close>











section \<open>Sprays and score against the clock in the Park variant\<close>

lemma park_sprayLoop_potential:
  "snd (park_sprayLoop height playerHitbox sprays kept score) +
     POINTS_FOR_SPRAY * int (length (fst (park_sprayLoop height playerHitbox sprays kept score)))
   \<le> score + POINTS_FOR_SPRAY * int (length sprays + length kept)"
proof (induction sprays arbitrary: kept score)
  case Nil
  then show ?case by simp
next
  case (Cons spray sprays)
  show ?case
    using Cons.IH [of kept "score + POINTS_FOR_SPRAY"] Cons.IH [of kept score]
      Cons.IH [of "spray # kept" score]
    by (simp add: POINTS_FOR_SPRAY_def algebra_simps)
qed

lemma park_checkCollisions_potential:
  "park_potential (park_checkCollisions s) \<le> park_potential s"
  using park_sprayLoop_potential [of "p_canvas_height s" "getPlayerHitbox s"
      "rev (p_sprays s)" "[]" "p_score s"]
  by (simp add: park_potential_def park_checkCollisions_def Let_def)

lemma park_checkCollisions_no_sprays:
  "p_sprays s = [] \<Longrightarrow>
   p_score (park_checkCollisions s) = p_score s \<and> p_sprays (park_checkCollisions s) = []"
  by (simp add: park_checkCollisions_def Let_def)

lemma spray_count_mono:
  "a \<le> b \<Longrightarrow>
   POINTS_FOR_SPRAY * (a div SPRAY_SPAWN_INTERVAL) \<le> POINTS_FOR_SPRAY * (b div SPRAY_SPAWN_INTERVAL)"
  by (simp add: POINTS_FOR_SPRAY_def SPRAY_SPAWN_INTERVAL_def zdiv_mono1)

lemma spray_count_next:
  "POINTS_FOR_SPRAY * ((a + SPRAY_SPAWN_INTERVAL) div SPRAY_SPAWN_INTERVAL) =
   POINTS_FOR_SPRAY * (a div SPRAY_SPAWN_INTERVAL) + POINTS_FOR_SPRAY"
  by (simp add: POINTS_FOR_SPRAY_def SPRAY_SPAWN_INTERVAL_def)

lemma park_sprayInv_later:
  assumes "park_sprayInv t s" and "t \<le> t'"
  shows "park_sprayInv t' s"
  using assms spray_count_mono [of "t - p_startTime s" "t' - p_startTime s"]
  by (auto simp: park_sprayInv_def split: if_splits option.splits)

lemma park_spawnSpray_sprayInv:
  assumes "park_sprayInv now s"
  shows "park_sprayInv now (park_spawnSpray now u s)"
proof (cases "p_sprayTimer s")
  case None
  then show ?thesis using assms by (simp add: park_spawnSpray_def)
next
  case (Some a)
  obtain due canvasWidth where a: "a = (due, canvasWidth)" by (cases a)
  show ?thesis
  proof (cases "now < due + SPRAY_SPAWN_INTERVAL")
    case True
    then show ?thesis using assms Some a by (simp add: park_spawnSpray_def)
  next
    case False
    have st: "p_startTime s \<noteq> 0"
      using assms Some by (auto simp: park_sprayInv_def split: if_splits)
    have b: "park_potential s
               \<le> POINTS_FOR_SPRAY * ((due - p_startTime s) div SPRAY_SPAWN_INTERVAL)"
      using assms Some a st by (simp add: park_sprayInv_def)
    have c: "POINTS_FOR_SPRAY *
               ((due + SPRAY_SPAWN_INTERVAL - p_startTime s) div SPRAY_SPAWN_INTERVAL)
             \<le> POINTS_FOR_SPRAY * ((now - p_startTime s) div SPRAY_SPAWN_INTERVAL)"
      using False by (intro spray_count_mono) simp
    have d: "POINTS_FOR_SPRAY *
               ((due + SPRAY_SPAWN_INTERVAL - p_startTime s) div SPRAY_SPAWN_INTERVAL)
             = POINTS_FOR_SPRAY * ((due - p_startTime s) div SPRAY_SPAWN_INTERVAL)
               + POINTS_FOR_SPRAY"
      using spray_count_next [of "due - p_startTime s"] by (simp add: algebra_simps)
    show ?thesis
      using assms Some a False st b c d
      by (simp add: park_spawnSpray_def park_sprayInv_def park_potential_def Let_def
            algebra_simps)
  qed
qed

lemma park_loop_sprayInv:
  assumes "park_sprayInv t s"
  shows "park_sprayInv t (park_loop s)"
proof (cases "\<not> p_running s \<or> p_canvas_width s = 0")
  case True
  then show ?thesis using assms by (simp add: park_loop_def)
next
  case False
  have f: "p_startTime (park_checkCollisions s) = p_startTime s"
      "p_sprayTimer (park_checkCollisions s) = p_sprayTimer s"
      "p_timerDeps (park_checkCollisions s) = p_timerDeps s"
      "p_sprayDeps (park_checkCollisions s) = p_sprayDeps s"
    by (simp_all add: park_checkCollisions_def Let_def)
  show ?thesis
    using assms False f park_checkCollisions_potential [of s]
      park_checkCollisions_no_sprays [of s]
    by (auto simp: park_loop_def park_sprayInv_def split: if_splits option.splits)
qed

lemma park_commit_sprayInv:
  assumes "park_sprayInv now s"
  shows "park_sprayInv now (park_commit now s)"
  using assms
  by (auto simp: park_commit_def park_sprayInv_def park_heartsEffect_def park_timerEffect_def
        park_sprayEffect_def park_potential_def Let_def split: if_splits option.splits)

lemma park_step_sprayInv_at:
  assumes "park_sprayInv t s"
    and "case park_eventTime ev of None \<Rightarrow> True | Some now \<Rightarrow> now = t"
  shows "park_sprayInv t (park_step ev s)"
proof (cases ev)
  case (PResize w h)
  then show ?thesis using assms
    by (auto simp: park_sprayInv_def park_updateSize_def park_potential_def
          split: if_splits option.splits)
next
  case (PMove l r)
  then show ?thesis using assms
    by (auto simp: park_sprayInv_def park_movePlayer_def park_potential_def Let_def
          split: if_splits option.splits)
next
  case (PSpawnEnemy ty sp fl)
  then show ?thesis using assms
    by (auto simp: park_sprayInv_def park_spawnEnemy_def park_potential_def Let_def
          split: if_splits option.splits)
next
  case (PSpawnSpray now u)
  then show ?thesis using assms park_spawnSpray_sprayInv [of t s u] by simp
next
  case PFrame
  then show ?thesis using assms park_loop_sprayInv [of t s] by simp
next
  case (PCommit now)
  then show ?thesis using assms park_commit_sprayInv [of t s] by simp
next
  case (PTimerTick now)
  then show ?thesis using assms
    by (auto simp: park_sprayInv_def park_timerCallback_def park_potential_def Let_def
          split: if_splits option.splits)
qed

lemma park_step_sprayInv:
  assumes "park_sprayInv t s"
    and "case park_eventTime ev of None \<Rightarrow> True | Some now \<Rightarrow> t \<le> now"
  shows "park_sprayInv (case park_eventTime ev of None \<Rightarrow> t | Some now \<Rightarrow> now)
           (park_step ev s)"
proof (cases "park_eventTime ev")
  case None
  then show ?thesis using park_step_sprayInv_at [OF assms(1), of ev] by simp
next
  case (Some now)
  then have "park_sprayInv now s" using assms park_sprayInv_later by simp
  then show ?thesis using park_step_sprayInv_at [of now s ev] Some by simp
qed

lemma park_run_sprayInv:
  "park_sprayInv t s \<Longrightarrow> park_clockOk t evs \<Longrightarrow>
   park_sprayInv (park_clockAfter t evs) (park_run evs s)"
proof (induction evs arbitrary: t s)
  case Nil
  then show ?case by (simp add: park_run_def)
next
  case (Cons ev evs)
  have ok: "case park_eventTime ev of None \<Rightarrow> True | Some now \<Rightarrow> t \<le> now"
    using Cons.prems(2) by (simp split: option.splits)
  have ok': "park_clockOk (case park_eventTime ev of None \<Rightarrow> t | Some now \<Rightarrow> now) evs"
    using Cons.prems(2) by (simp split: option.splits)
  show ?case
    using Cons.IH [OF park_step_sprayInv [OF Cons.prems(1) ok] ok']
    by (simp add: park_run_def)
qed

lemma park_init_sprayInv: "0 < t \<Longrightarrow> park_sprayInv t (park_init hearts neighborhood)"
  by (simp add: park_sprayInv_def park_init_def)

lemma park_sprayInv_score:
  assumes "park_sprayInv t s"
  shows "p_score s < SCORE_FOR_WIN \<or>
         (p_startTime s \<noteq> 0 \<and> GAME_DURATION \<le> t - p_startTime s)"
proof (cases "p_startTime s = 0")
  case True
  then show ?thesis using assms by (simp add: park_sprayInv_def SCORE_FOR_WIN_def)
next
  case False
  have "p_score s \<le> park_potential s"
    by (simp add: park_potential_def POINTS_FOR_SPRAY_def)
  then have "p_score s \<le> POINTS_FOR_SPRAY * ((t - p_startTime s) div SPRAY_SPAWN_INTERVAL)"
    using assms False by (simp add: park_sprayInv_def)
  then show ?thesis using False
    by (auto simp: POINTS_FOR_SPRAY_def SPRAY_SPAWN_INTERVAL_def SCORE_FOR_WIN_def
          GAME_DURATION_def)
qed

section \<open>Terminal callbacks scheduled twice\<close>



section \<open>Reaching the score threshold\<close>

text \<open>
  Claim C3, as the code has it. In the generic engine, the end-minigame effect of a
  running session whose score is at least 100 stops the session at once, whatever time
  remains, and schedules onWin 400 ms later (the map screen when no onWin was passed),
  provided a neighbourhood is selected; with no neighbourhood selected it schedules
  nothing and leaves the session running while the rendered remainingTime is above 0, and
  resolves it only at the time-out. In the Park variant ten pickups do not occur before
  the game duration has elapsed: along every run of a freshly mounted session whose clock
  readings are positive and never go backwards, the score is below SCORE_FOR_WIN unless
  GAME_DURATION has elapsed since the start time, because the spray interval is armed no
  earlier than the start time and yields one spray per SPRAY_SPAWN_INTERVAL. A step of
  the Park variant calls onWin exactly when it is a timer tick at or after GAME_DURATION
  whose callback closed over a score of at least SCORE_FOR_WIN.
\<close>

theorem score_threshold_resolution:
  assumes "g_running g" and "100 \<le> g_score g" and "0 < t" and "park_clockOk t evs"
  shows "(case g_selectedNeighborhood g of
            Some n \<Rightarrow>
              \<not> g_running (gen_endEffect now g) \<and>
              g_fired (gen_endEffect now g) =
                g_fired g @ [(0, CompleteNeighborhood n),
                             (400, if g_hasOnWin g then OnWin else SetGameState ''map'')]
          | None \<Rightarrow>
              if 0 < g_remainingTime g
              then g_running (gen_endEffect now g) \<and> g_fired (gen_endEffect now g) = g_fired g
              else \<not> g_running (gen_endEffect now g) \<and>
                   g_fired (gen_endEffect now g) =
                     g_fired g @ [(400, if g_hasOnWin g then OnWin else SetGameState ''map'')]) \<and>
         (p_score (park_run evs (park_init hearts neighborhood)) < SCORE_FOR_WIN \<or>
          (p_startTime (park_run evs (park_init hearts neighborhood)) \<noteq> 0 \<and>
           GAME_DURATION \<le>
             park_clockAfter t evs - p_startTime (park_run evs (park_init hearts neighborhood)))) \<and>
         ((0, OnWin) \<in> set (newlyFired (p_fired s) (p_fired (park_step ev s))) \<longleftrightarrow>
            (\<exists>t' startTime score.
               ev = PTimerTick t' \<and> p_timer s = Some (startTime, score) \<and>
               GAME_DURATION \<le> t' - startTime \<and> SCORE_FOR_WIN \<le> score))"
proof -
  have g: "case g_selectedNeighborhood g of
            Some n \<Rightarrow>
              \<not> g_running (gen_endEffect now g) \<and>
              g_fired (gen_endEffect now g) =
                g_fired g @ [(0, CompleteNeighborhood n),
                             (400, if g_hasOnWin g then OnWin else SetGameState ''map'')]
          | None \<Rightarrow>
              if 0 < g_remainingTime g
              then g_running (gen_endEffect now g) \<and> g_fired (gen_endEffect now g) = g_fired g
              else \<not> g_running (gen_endEffect now g) \<and>
                   g_fired (gen_endEffect now g) =
                     g_fired g @ [(400, if g_hasOnWin g then OnWin else SetGameState ''map'')]"
    using assms(1,2) by (simp add: gen_endEffect_def Let_def split: option.splits)
  have i: "p_score (park_run evs (park_init hearts neighborhood)) < SCORE_FOR_WIN \<or>
          (p_startTime (park_run evs (park_init hearts neighborhood)) \<noteq> 0 \<and>
           GAME_DURATION \<le>
             park_clockAfter t evs - p_startTime (park_run evs (park_init hearts neighborhood)))"
    by (rule park_sprayInv_score)
       (rule park_run_sprayInv [OF park_init_sprayInv [OF assms(3)] assms(4)])
  have p: "(0, OnWin) \<in> set (newlyFired (p_fired s) (p_fired (park_step ev s))) \<longleftrightarrow>
            (\<exists>t' startTime score.
               ev = PTimerTick t' \<and> p_timer s = Some (startTime, score) \<and>
               GAME_DURATION \<le> t' - startTime \<and> SCORE_FOR_WIN \<le> score)"
    unfolding park_step_newlyFired
    by (cases ev; cases "p_timer s") auto
  show ?thesis by (intro conjI g i p)
qed

theorem score_threshold_resolution_witness:
  "g_running (gen_hundred_points (Some ''Old North'')) \<and>
   100 \<le> g_score (gen_hundred_points (Some ''Old North'')) \<and>
   (0::int) < 1 \<and> park_clockOk 1 park_win_events \<and>
   g_remainingTime (gen_hundred_points (Some ''Old North'')) = 25 \<and>
   g_fired (gen_endEffect 6200 (gen_hundred_points (Some ''Old North''))) =
     [(0, CompleteNeighborhood ''Old North''), (400, OnWin)] \<and>
   p_score (park_run park_win_events (park_init 5 (Some ''Park Hamesila''))) = 100 \<and>
   GAME_DURATION \<le> park_clockAfter 1 park_win_events -
     p_startTime (park_run park_win_events (park_init 5 (Some ''Park Hamesila''))) \<and>
   park_clockAfter 1 park_win_events = 31120 \<and>
   (0, OnWin) \<in> set (newlyFired (p_fired park_tenth_at_expiry)
                       (p_fired (park_step (PTimerTick 31120) park_tenth_at_expiry)))"
proof -
  have h: "g_running (gen_hundred_points (Some ''Old North''))"
      "100 \<le> g_score (gen_hundred_points (Some ''Old North''))"
    by (simp_all add: gen_hundred_points_state)
  have c: "(0::int) < 1" "park_clockOk 1 park_win_events"
      "park_clockAfter 1 park_win_events = 31120"
    by (simp_all add: park_win_events_def park_nine_pickup_events_def park_pickup_def)
  have r: "p_score (park_run park_win_events (park_init 5 (Some ''Park Hamesila''))) = 100"
      "p_startTime (park_run park_win_events (park_init 5 (Some ''Park Hamesila''))) = 1000"
    by (simp_all add: park_win_events_run park_tenth_at_expiry_state park_timerCallback_def
          GAME_DURATION_def SCORE_FOR_WIN_def)
  have t: "p_timer park_tenth_at_expiry = Some (1000, 100)"
    by (simp add: park_tenth_at_expiry_state)
  show ?thesis
    using score_threshold_resolution [OF h c(1,2), of 6200 5 "Some ''Park Hamesila''"
        park_tenth_at_expiry "PTimerTick 31120"] h c r t
    by (simp add: gen_hundred_points_state GAME_DURATION_def SCORE_FOR_WIN_def)
qed

text \<open>
  In the generic session with no neighbourhood selected, ten point items have been picked
  up 5.2 s into the game: the score is 100 with 25 s remaining, and the end-minigame
  effect neither schedules onWin nor stops the session.
\<close>

theorem score_hundred_no_early_win:
  "g_score (gen_hundred_points None) = 100 \<and>
   g_remainingTime (gen_hundred_points None) = 25 \<and>
   g_running (gen_hundred_points None) \<and>
   g_fired (gen_step (GEndEffect 6200) (gen_hundred_points None)) = [] \<and>
   g_running (gen_step (GEndEffect 6200) (gen_hundred_points None))"
  by (simp add: gen_hundred_points_state gen_endEffect_def gen_duration_def)

section \<open>Early win without a neighbourhood\<close>

text \<open>
  Claim C10. In the generic engine with no neighbourhood selected, the end-minigame effect
  of a running session with score at least 100 leaves it running and fires nothing while
  the rendered remainingTime is above 0, and no other event stops it either as long as
  hearts remain; once remainingTime is 0 the effect stops the session and schedules onWin
  (the map screen when no onWin was passed).
\<close>

theorem generic_early_win_needs_neighborhood:
  assumes "g_running s" and "g_selectedNeighborhood s = None" and "100 \<le> g_score s"
  shows "(if 0 < g_remainingTime s
          then g_running (gen_endEffect now s) \<and> g_fired (gen_endEffect now s) = g_fired s \<and>
               (0 < g_hearts s \<longrightarrow> g_running (gen_step ev s))
          else \<not> g_running (gen_endEffect now s) \<and>
               g_fired (gen_endEffect now s) =
                 g_fired s @ [(400, if g_hasOnWin s then OnWin else SetGameState ''map'')])"
proof (cases "0 < g_remainingTime s")
  case True
  have "g_running (gen_step ev s)" if "0 < g_hearts s"
    using assms True that
    by (cases ev)
       (auto simp: gen_updateSize_def gen_handleMouse_def gen_loop_def
          gen_collisionEffect_def gen_checkCollisions_def gen_collectiblePart_def
          gen_pointItemPart_def gen_endEffect_def gen_intervalCallback_def gen_heartsEffect_def
          gen_checkInvuln_def gen_spawnEnemy_def gen_spawnCollectible_def
          gen_spawnPointItem_def setInvulnerable_def clearInvulnerable_def Let_def
          split: option.splits)
  then show ?thesis
    using assms True by (simp add: gen_endEffect_def Let_def)
next
  case False
  then show ?thesis
    using assms by (simp add: gen_endEffect_def Let_def)
qed

theorem generic_early_win_needs_neighborhood_witness:
  "g_running (gen_hundred_points None) \<and> g_selectedNeighborhood (gen_hundred_points None) = None \<and>
   100 \<le> g_score (gen_hundred_points None) \<and> 0 < g_remainingTime (gen_hundred_points None) \<and>
   g_running (gen_endEffect 6200 (gen_hundred_points None)) \<and>
   g_fired (gen_endEffect 6200 (gen_hundred_points None)) = [] \<and>
   g_remainingTime (gen_step (GInterval 31000) (gen_hundred_points None)) = 0 \<and>
   \<not> g_running (gen_endEffect 31000 (gen_step (GInterval 31000) (gen_hundred_points None))) \<and>
   g_fired (gen_endEffect 31000 (gen_step (GInterval 31000) (gen_hundred_points None))) =
     [(400, OnWin)]"
proof -
  have h: "g_running (gen_hundred_points None)"
      "g_selectedNeighborhood (gen_hundred_points None) = None"
      "100 \<le> g_score (gen_hundred_points None)"
    by (simp_all add: gen_hundred_points_state)
  have i: "gen_step (GInterval 31000) (gen_hundred_points None) =
             (gen_hundred_points None)\<lparr>g_remainingTime := 0\<rparr>"
    by (simp add: gen_hundred_points_state gen_intervalCallback_def)
  have h': "g_running (gen_step (GInterval 31000) (gen_hundred_points None))"
      "g_selectedNeighborhood (gen_step (GInterval 31000) (gen_hundred_points None)) = None"
      "100 \<le> g_score (gen_step (GInterval 31000) (gen_hundred_points None))"
    unfolding i using h by simp_all
  show ?thesis
    using generic_early_win_needs_neighborhood [OF h, of 6200 GLoop]
      generic_early_win_needs_neighborhood [OF h', of 31000 GLoop] h
    unfolding i by (simp add: gen_hundred_points_state)
qed

section \<open>How a session is lost\<close>

lemma mem_collision_hit:
  assumes "m_running m" and "m_canvas_width m \<noteq> 0" and "\<not> m_lifeLost m"
    and "\<exists>chair \<in> set (m_chairs m). chairHits (m_playerX m) (m_playerY m) chair"
  shows "mem_collisionEffect m =
           m\<lparr>m_lifeLost := True, m_hearts := loseHeart (m_hearts m), m_running := False,
             m_fired := m_fired m @
               [(400, if m_hearts m - 1 \<le> 0 then SetGameState ''gameover'' else OnLose)]\<rparr>"
proof -
  have "find (chairHits (m_playerX m) (m_playerY m)) (m_chairs m) \<noteq> None"
    using assms(4) by (simp only: find_not_None)
  then obtain chair where
    "find (chairHits (m_playerX m) (m_playerY m)) (m_chairs m) = Some chair"
    by blast
  then show ?thesis using assms(1-3) by (simp add: mem_collisionEffect_def)
qed

text \<open>
  Claim C4, as the code has it. In the Park variant a step schedules the game-over
  screen exactly when it is a commit whose hearts effect runs on hearts at 0, and calls
  onLose exactly when it is a timer tick at or after GAME_DURATION whose callback closed
  over a score below SCORE_FOR_WIN. In the generic engine a step schedules onLose exactly
  when an onLose prop was passed and it is the hearts effect running on hearts at 0 or the
  end-minigame effect of a running session with remainingTime 0 and score below 100; it
  schedules the game-over screen exactly when it is the hearts effect running on hearts at
  0 with no onLose prop. In both, a collision check alone (a frame in Park, the collision
  effect in the generic engine) schedules nothing and leaves \<open>running\<close> as it was. In the
  Memadion variant a step schedules a losing action exactly when it is the collision
  effect of a running session (with no life lost yet) finding a chair that hits the
  player: that one collision takes one heart, sets \<open>running\<close> to false and schedules
  onLose when \<open>hearts - 1 > 0\<close> and the game-over screen otherwise. The timer tick of
  Memadion at or after its game duration sets \<open>running\<close> to false and schedules onWin.
\<close>

theorem loss_transitions:
  "((\<exists>d. (d, SetGameState ''gameover'') \<in> set (newlyFired (p_fired s) (p_fired (park_step ev s))))
      \<longleftrightarrow> (\<exists>now. ev = PCommit now) \<and> p_heartsDeps s \<noteq> Some (p_hearts s) \<and> p_hearts s \<le> 0) \<and>
   ((\<exists>d. (d, OnLose) \<in> set (newlyFired (p_fired s) (p_fired (park_step ev s))))
      \<longleftrightarrow> (\<exists>t startTime score.
             ev = PTimerTick t \<and> p_timer s = Some (startTime, score) \<and>
             GAME_DURATION \<le> t - startTime \<and> score < SCORE_FOR_WIN)) \<and>
   p_running (park_step PFrame s) = p_running s \<and>
   p_fired (park_step PFrame s) = p_fired s \<and>
   ((\<exists>d. (d, OnLose) \<in> set (newlyFired (g_fired g) (g_fired (gen_step gev g))))
      \<longleftrightarrow> g_hasOnLose g \<and>
          ((gev = GHeartsEffect \<and> g_heartsDeps g \<noteq> Some (g_hearts g) \<and> g_hearts g \<le> 0) \<or>
           (\<exists>now. gev = GEndEffect now \<and> g_running g \<and> g_remainingTime g \<le> 0 \<and>
              g_score g < 100))) \<and>
   ((\<exists>d. (d, SetGameState ''gameover'') \<in>
            set (newlyFired (g_fired g) (g_fired (gen_step gev g))))
      \<longleftrightarrow> \<not> g_hasOnLose g \<and> gev = GHeartsEffect \<and> g_heartsDeps g \<noteq> Some (g_hearts g) \<and>
          g_hearts g \<le> 0) \<and>
   g_running (gen_step (GCollisionEffect now') g) = g_running g \<and>
   g_fired (gen_step (GCollisionEffect now') g) = g_fired g \<and>
   ((\<exists>d. (d, OnLose) \<in> set (newlyFired (m_fired m) (m_fired (mem_step mev m))) \<or>
          (d, SetGameState ''gameover'') \<in>
            set (newlyFired (m_fired m) (m_fired (mem_step mev m))))
      \<longleftrightarrow> mev = MCollisionEffect \<and> m_running m \<and> m_canvas_width m \<noteq> 0 \<and> \<not> m_lifeLost m \<and>
          (\<exists>chair \<in> set (m_chairs m). chairHits (m_playerX m) (m_playerY m) chair)) \<and>
   (m_running m \<and> m_canvas_width m \<noteq> 0 \<and> \<not> m_lifeLost m \<and>
      (\<exists>chair \<in> set (m_chairs m). chairHits (m_playerX m) (m_playerY m) chair)
    \<longrightarrow> mem_step MCollisionEffect m =
          m\<lparr>m_lifeLost := True, m_hearts := loseHeart (m_hearts m), m_running := False,
            m_fired := m_fired m @
              [(400, if m_hearts m - 1 \<le> 0 then SetGameState ''gameover'' else OnLose)]\<rparr>) \<and>
   (m_timer m = Some mstart \<and> mem_GAME_DURATION \<le> mnow - mstart
    \<longrightarrow> \<not> m_running (mem_step (MTimerTick mnow) m) \<and>
        m_fired (mem_step (MTimerTick mnow) m) = m_fired m @ [(400, OnWin)])"
proof -
  have p1: "(\<exists>d. (d, SetGameState ''gameover'') \<in>
                  set (newlyFired (p_fired s) (p_fired (park_step ev s))))
      \<longleftrightarrow> (\<exists>now. ev = PCommit now) \<and> p_heartsDeps s \<noteq> Some (p_hearts s) \<and> p_hearts s \<le> 0"
    unfolding park_step_newlyFired
    by (cases ev; cases "p_timer s"; cases "p_selectedNeighborhood s";
        cases "the (p_timer s)") auto
  have p2: "(\<exists>d. (d, OnLose) \<in> set (newlyFired (p_fired s) (p_fired (park_step ev s))))
      \<longleftrightarrow> (\<exists>t startTime score.
             ev = PTimerTick t \<and> p_timer s = Some (startTime, score) \<and>
             GAME_DURATION \<le> t - startTime \<and> score < SCORE_FOR_WIN)"
    unfolding park_step_newlyFired
    by (cases ev; cases "p_timer s"; cases "p_selectedNeighborhood s";
        cases "the (p_timer s)") auto
  have p3: "p_running (park_step PFrame s) = p_running s"
    by (simp add: park_loop_def park_checkCollisions_def Let_def)
  have p4: "p_fired (park_step PFrame s) = p_fired s"
    by (simp add: park_loop_def park_checkCollisions_def Let_def)
  have g1: "(\<exists>d. (d, OnLose) \<in> set (newlyFired (g_fired g) (g_fired (gen_step gev g))))
      \<longleftrightarrow> g_hasOnLose g \<and>
          ((gev = GHeartsEffect \<and> g_heartsDeps g \<noteq> Some (g_hearts g) \<and> g_hearts g \<le> 0) \<or>
           (\<exists>now. gev = GEndEffect now \<and> g_running g \<and> g_remainingTime g \<le> 0 \<and>
              g_score g < 100))"
    unfolding gen_step_newlyFired
    by (cases gev; cases "g_selectedNeighborhood g"; cases "100 \<le> g_score g") auto
  have g2: "(\<exists>d. (d, SetGameState ''gameover'') \<in>
            set (newlyFired (g_fired g) (g_fired (gen_step gev g))))
      \<longleftrightarrow> \<not> g_hasOnLose g \<and> gev = GHeartsEffect \<and> g_heartsDeps g \<noteq> Some (g_hearts g) \<and>
          g_hearts g \<le> 0"
    unfolding gen_step_newlyFired
    by (cases gev; cases "g_selectedNeighborhood g"; cases "100 \<le> g_score g") auto
  have g3: "g_running (gen_step (GCollisionEffect now') g) = g_running g"
    by (auto simp: gen_defs Let_def split: option.splits)
  have g4: "g_fired (gen_step (GCollisionEffect now') g) = g_fired g"
    by (auto simp: gen_defs Let_def split: option.splits)
  have m1: "(\<exists>d. (d, OnLose) \<in> set (newlyFired (m_fired m) (m_fired (mem_step mev m))) \<or>
          (d, SetGameState ''gameover'') \<in>
            set (newlyFired (m_fired m) (m_fired (mem_step mev m))))
      \<longleftrightarrow> mev = MCollisionEffect \<and> m_running m \<and> m_canvas_width m \<noteq> 0 \<and> \<not> m_lifeLost m \<and>
          (\<exists>chair \<in> set (m_chairs m). chairHits (m_playerX m) (m_playerY m) chair)"
    unfolding mem_step_newlyFired find_not_None
    by (cases mev; cases "m_timer m") auto
  have m2: "m_running m \<and> m_canvas_width m \<noteq> 0 \<and> \<not> m_lifeLost m \<and>
      (\<exists>chair \<in> set (m_chairs m). chairHits (m_playerX m) (m_playerY m) chair)
    \<longrightarrow> mem_step MCollisionEffect m =
          m\<lparr>m_lifeLost := True, m_hearts := loseHeart (m_hearts m), m_running := False,
            m_fired := m_fired m @
              [(400, if m_hearts m - 1 \<le> 0 then SetGameState ''gameover'' else OnLose)]\<rparr>"
    using mem_collision_hit [of m] by simp
  have m3: "m_timer m = Some mstart \<and> mem_GAME_DURATION \<le> mnow - mstart
    \<longrightarrow> \<not> m_running (mem_step (MTimerTick mnow) m) \<and>
        m_fired (mem_step (MTimerTick mnow) m) = m_fired m @ [(400, OnWin)]"
    by (simp add: mem_timerCallback_def)
  show ?thesis
    by (intro conjI p1 p2 p3 p4 g1 g2 g3 g4 m1 m2 m3)
qed

theorem loss_transitions_witness:
  "m_running mem_chair_reaches_player \<and> m_canvas_width mem_chair_reaches_player \<noteq> 0 \<and>
   \<not> m_lifeLost mem_chair_reaches_player \<and>
   (\<exists>chair \<in> set (m_chairs mem_chair_reaches_player).
      chairHits (m_playerX mem_chair_reaches_player) (m_playerY mem_chair_reaches_player) chair) \<and>
   m_fired (mem_step MCollisionEffect mem_chair_reaches_player) = [(400, OnLose)] \<and>
   \<not> m_running (mem_step MCollisionEffect mem_chair_reaches_player) \<and>
   m_hearts (mem_step MCollisionEffect mem_chair_reaches_player) = 4 \<and>
   m_timer (mem_run mem_first_ticks (mem_init 5)) = Some 1000 \<and>
   mem_GAME_DURATION \<le> 21000 - 1000 \<and>
   m_fired (mem_step (MTimerTick 21000) (mem_run mem_first_ticks (mem_init 5))) =
     [(400, OnWin)] \<and>
   p_heartsDeps park_no_hearts \<noteq> Some (p_hearts park_no_hearts) \<and>
   p_hearts park_no_hearts \<le> 0 \<and>
   (400, SetGameState ''gameover'') \<in>
     set (newlyFired (p_fired park_no_hearts) (p_fired (park_step (PCommit 2100) park_no_hearts)))"
proof -
  have a: "m_running mem_chair_reaches_player" "m_canvas_width mem_chair_reaches_player \<noteq> 0"
      "\<not> m_lifeLost mem_chair_reaches_player"
      "m_fired mem_chair_reaches_player = []" "m_hearts mem_chair_reaches_player = 5"
    by (simp_all add: mem_chair_reaches_player_state)
  have t: "m_timer (mem_run mem_first_ticks (mem_init 5)) = Some 1000"
      "mem_GAME_DURATION \<le> 21000 - 1000"
      "m_fired (mem_run mem_first_ticks (mem_init 5)) = []"
    by (simp_all add: mem_first_ticks_def mem_eval mem_timerCallback_def)
  have h: "\<exists>chair \<in> set (m_chairs mem_chair_reaches_player).
      chairHits (m_playerX mem_chair_reaches_player) (m_playerY mem_chair_reaches_player) chair"
    by (simp add: mem_chair_reaches_player_state chairHits_def PLAYER_RADIUS_def
          real_sqrt_unique [of 41 1681])
  have b: "p_heartsDeps park_no_hearts \<noteq> Some (p_hearts park_no_hearts)"
      "p_hearts park_no_hearts \<le> 0"
    by (simp_all add: park_no_hearts_state)
  have c: "newlyFired (p_fired park_no_hearts)
             (p_fired (park_step (PCommit 2100) park_no_hearts)) =
           [(400, SetGameState ''gameover'')]"
    using b park_step_newlyFired [of park_no_hearts "PCommit 2100"] by simp
  show ?thesis
    using loss_transitions [of park_no_hearts "PCommit 2100" gen_no_hearts GHeartsEffect 0
        mem_chair_reaches_player MCollisionEffect 1000 21000]
      loss_transitions [of park_no_hearts "PCommit 2100" gen_no_hearts GHeartsEffect 0
        "mem_run mem_first_ticks (mem_init 5)" MCollisionEffect 1000 21000] a t h b c
    by (simp add: loseHeart_def)
qed

text \<open>
  In the Memadion session above the player has five hearts and the full 20 s left; the
  one chair that reaches the player stops the session and schedules onLose, with four
  hearts remaining.
\<close>

theorem memadion_single_hit_loses:
  "m_running mem_chair_reaches_player \<and> m_hearts mem_chair_reaches_player = 5 \<and>
   m_timeLeft mem_chair_reaches_player = 20000 \<and>
   \<not> m_running (mem_step MCollisionEffect mem_chair_reaches_player) \<and>
   m_fired (mem_step MCollisionEffect mem_chair_reaches_player) = [(400, OnLose)] \<and>
   m_hearts (mem_step MCollisionEffect mem_chair_reaches_player) = 4"
  by (simp add: mem_chair_reaches_player_state mem_collisionEffect_def chairHits_def
        PLAYER_RADIUS_def loseHeart_def real_sqrt_unique [of 41 1681])

section \<open>Hearts at zero\<close>











section \<open>Horizontal bounds of the player\<close>

lemma park_step_xInBounds:
  assumes "PLAYER_WIDTH \<le> p_canvas_width (park_step ev s)"
    and "park_xInBounds s \<or> (\<exists>w h. ev = PResize w h)"
  shows "park_xInBounds (park_step ev s)"
  using assms
  by (cases ev)
     (auto simp: park_xInBounds_def getPlayerHitbox_def park_defs PLAYER_WIDTH_def
        MOVEMENT_SPEED_def Let_def split: option.splits)

lemma gen_step_geometry:
  "g_playerX (gen_step gev g) =
     (case gev of
        GResize w h \<Rightarrow> w / 2
      | GMouse x \<Rightarrow> max PLAYER_RADIUS (min (g_canvas_width g - PLAYER_RADIUS) x)
      | _ \<Rightarrow> g_playerX g) \<and>
   g_canvas_width (gen_step gev g) =
     (case gev of GResize w h \<Rightarrow> w | _ \<Rightarrow> g_canvas_width g)"
  by (cases gev) (auto simp: gen_defs Let_def split: option.splits bool.splits)

lemma gen_step_xInRadius:
  assumes "2 * PLAYER_RADIUS \<le> g_canvas_width (gen_step gev g)"
    and "gen_xInRadius g \<or> (\<exists>w h. gev = GResize w h) \<or> (\<exists>x. gev = GMouse x)"
  shows "gen_xInRadius (gen_step gev g)"
  using assms
  unfolding gen_xInRadius_def gen_step_geometry [THEN conjunct1]
    gen_step_geometry [THEN conjunct2]
  by (cases gev) (auto simp: PLAYER_RADIUS_def)

text \<open>
  Claim C8, as the code has it. In the Park variant on a canvas at least PLAYER_WIDTH
  wide, every event keeps the player's x within
  \<open>[PLAYER_WIDTH / 2, width - PLAYER_WIDTH / 2]\<close>, and PLAYER_WIDTH is the width of the
  hitbox; a resize puts x there whatever it was. In the generic engine on a canvas at
  least \<open>2 * PLAYER_RADIUS\<close> wide, every event keeps x within
  \<open>[PLAYER_RADIUS, width - PLAYER_RADIUS]\<close>, and a resize or a mouse move puts it there.
  PLAYER_RADIUS is half the width of the fallback hitbox only; with the player image
  loaded and a character selected the hitbox is \<open>0.23 * height * aspect ratio\<close> wide,
  which the clamp does not use.
\<close>

theorem player_x_bounds:
  assumes "PLAYER_WIDTH \<le> p_canvas_width (park_step ev s)"
    and "park_xInBounds s \<or> (\<exists>w h. ev = PResize w h)"
    and "2 * PLAYER_RADIUS \<le> g_canvas_width (gen_step gev g)"
    and "gen_xInRadius g \<or> (\<exists>w h. gev = GResize w h) \<or> (\<exists>x. gev = GMouse x)"
  shows "r_width (getPlayerHitbox (park_step ev s)) = PLAYER_WIDTH \<and>
         PLAYER_WIDTH / 2 \<le> p_playerX (park_step ev s) \<and>
         p_playerX (park_step ev s) \<le> p_canvas_width (park_step ev s) - PLAYER_WIDTH / 2 \<and>
         PLAYER_RADIUS \<le> g_playerX (gen_step gev g) \<and>
         g_playerX (gen_step gev g) \<le> g_canvas_width (gen_step gev g) - PLAYER_RADIUS \<and>
         r_width (getPlayerRect g) =
           (case (g_playerImage g, g_selectedCharacter g) of
              (Some img, Some character) \<Rightarrow>
                g_canvas_height g * 0.23 * (img_width img / img_height img)
            | _ \<Rightarrow> 2 * PLAYER_RADIUS)"
proof -
  have w: "r_width (getPlayerRect g) =
           (case (g_playerImage g, g_selectedCharacter g) of
              (Some img, Some character) \<Rightarrow>
                g_canvas_height g * 0.23 * (img_width img / img_height img)
            | _ \<Rightarrow> 2 * PLAYER_RADIUS)"
    by (simp add: getPlayerRect_def Let_def split: option.splits)
  show ?thesis
    using park_step_xInBounds [OF assms(1,2)] gen_step_xInRadius [OF assms(3,4)] w
    by (simp add: park_xInBounds_def gen_xInRadius_def getPlayerHitbox_def)
qed

theorem player_x_bounds_witness:
  "PLAYER_WIDTH \<le> p_canvas_width (park_step (PMove True False) park_two_enemies) \<and>
   park_xInBounds park_two_enemies \<and>
   p_playerX (park_step (PMove True False) park_two_enemies) = 394 \<and>
   2 * PLAYER_RADIUS \<le> g_canvas_width (gen_step (GMouse 990) gen_two_enemies) \<and>
   g_playerX (gen_step (GMouse 990) gen_two_enemies) = 776 \<and>
   r_width (getPlayerRect gen_two_enemies) = 48"
proof -
  have a: "PLAYER_WIDTH \<le> p_canvas_width (park_step (PMove True False) park_two_enemies)"
    by (simp add: park_two_enemies_state park_movePlayer_def PLAYER_WIDTH_def)
  have b: "park_xInBounds park_two_enemies"
    by (simp add: park_two_enemies_state park_xInBounds_def getPlayerHitbox_def
          PLAYER_WIDTH_def)
  have c: "2 * PLAYER_RADIUS \<le> g_canvas_width (gen_step (GMouse 990) gen_two_enemies)"
    by (simp add: gen_two_enemies_state gen_handleMouse_def PLAYER_RADIUS_def)
  have d: "p_playerX (park_step (PMove True False) park_two_enemies) = 394"
      "g_playerX (gen_step (GMouse 990) gen_two_enemies) = 776"
    by (simp_all add: park_two_enemies_state gen_two_enemies_state park_movePlayer_def
          gen_handleMouse_def PLAYER_WIDTH_def MOVEMENT_SPEED_def PLAYER_RADIUS_def)
  show ?thesis
    using player_x_bounds [of "PMove True False" park_two_enemies "GMouse 990"
        gen_two_enemies, OF a _ c] a b c d
    by (simp add: gen_two_enemies_state PLAYER_RADIUS_def)
qed

text \<open>
  With the image loaded the hitbox is 115 wide; at the left edge x is clamped to 24, less
  than half of that, and the hitbox reaches outside the canvas.
\<close>

theorem generic_player_x_inside_hitbox_half_width:
  "g_canvas_width gen_at_left_edge = 1000 \<and> g_playerX gen_at_left_edge = 24 \<and>
   r_width (getPlayerRect gen_at_left_edge) = 115 \<and>
   r_x (getPlayerRect gen_at_left_edge) < 0 \<and>
   \<not> (r_width (getPlayerRect gen_at_left_edge) / 2 \<le> g_playerX gen_at_left_edge)"
  by (simp add: gen_at_left_edge_state getPlayerRect_def)

section \<open>Score never decreases\<close>

lemma park_sprayLoop_score:
  "score \<le> snd (park_sprayLoop height playerHitbox sprays kept score)"
proof (induction sprays arbitrary: kept score)
  case Nil
  then show ?case by simp
next
  case (Cons spray sprays)
  have "score + POINTS_FOR_SPRAY \<le>
          snd (park_sprayLoop height playerHitbox sprays kept (score + POINTS_FOR_SPRAY))"
    by (rule Cons.IH)
  then have "score \<le>
          snd (park_sprayLoop height playerHitbox sprays kept (score + POINTS_FOR_SPRAY))"
    by (simp add: POINTS_FOR_SPRAY_def)
  then show ?case using Cons.IH by simp
qed

lemma park_step_score: "p_score s \<le> p_score (park_step ev s)"
  by (cases ev) (auto simp: park_defs Let_def park_sprayLoop_score split: option.splits)

lemma gen_step_score: "g_score g \<le> g_score (gen_step gev g)"
  by (cases gev) (auto simp: gen_defs Let_def split: option.splits bool.splits)

lemma statesAlong_lower:
  assumes "\<And>e s. f s \<le> f (step e s)"
  shows "x \<in> set (statesAlong step es s) \<Longrightarrow> (f s :: int) \<le> f x"
proof (induction es arbitrary: s)
  case Nil
  then show ?case by simp
next
  case (Cons e es)
  then show ?case using assms [of s e] by (auto intro: order_trans)
qed

lemma statesAlong_sorted:
  assumes "\<And>e s. f s \<le> f (step e s)"
  shows "sorted (map f (statesAlong step es s) :: int list)"
proof (induction es arbitrary: s)
  case Nil
  then show ?case by simp
next
  case (Cons e es)
  have "f s \<le> f x" if "x \<in> set (statesAlong step es (step e s))" for x
    using statesAlong_lower [of f step, OF assms that] assms [of s e] by simp
  then show ?case using Cons.IH by auto
qed

lemma elapsed_score_mono:
  "a \<le> b \<Longrightarrow> \<lfloor>(real_of_int a / 1000) * 5\<rfloor> \<le> \<lfloor>(real_of_int b / 1000) * 5\<rfloor>"
  by (intro floor_mono) simp

lemma mem_step_scoreInv:
  assumes "mem_scoreInv t s"
    and "case mem_eventTime ev of None \<Rightarrow> True | Some now \<Rightarrow> t \<le> now"
  shows "m_score s \<le> m_score (mem_step ev s) \<and>
         mem_scoreInv (case mem_eventTime ev of None \<Rightarrow> t | Some now \<Rightarrow> now) (mem_step ev s)"
proof (cases ev)
  case (MStartEffect now)
  then have "t \<le> now" using assms(2) by simp
  then show ?thesis
    using assms(1) MStartEffect elapsed_score_mono [of "t - m_startTime s" "now - m_startTime s"]
    by (auto simp: mem_scoreInv_def mem_startEffect_def split: if_splits)
next
  case (MTimerTick now)
  then have le: "t \<le> now" using assms(2) by simp
  show ?thesis
  proof (cases "m_timer s")
    case None
    then show ?thesis
      using assms(1) MTimerTick le
        elapsed_score_mono [of "t - m_startTime s" "now - m_startTime s"]
      by (auto simp: mem_scoreInv_def mem_timerCallback_def split: if_splits)
  next
    case (Some st)
    then have st: "st = m_startTime s" "m_startTime s \<noteq> 0"
      using assms(1) by (auto simp: mem_scoreInv_def split: if_splits)
    show ?thesis
      using assms(1) MTimerTick le Some st
        elapsed_score_mono [of "t - m_startTime s" "now - m_startTime s"]
      by (auto simp: mem_scoreInv_def mem_timerCallback_def Let_def split: if_splits)
  qed
qed (use assms in \<open>auto simp: mem_scoreInv_def mem_defs Let_def split: if_splits option.splits\<close>)

lemma mem_statesAlong_lower:
  "mem_scoreInv t s \<Longrightarrow> mem_clockOk t evs \<Longrightarrow> x \<in> set (statesAlong mem_step evs s) \<Longrightarrow>
   m_score s \<le> m_score x"
proof (induction evs arbitrary: t s)
  case Nil
  then show ?case by simp
next
  case (Cons ev evs)
  have ok: "case mem_eventTime ev of None \<Rightarrow> True | Some now \<Rightarrow> t \<le> now"
    using Cons.prems(2) by (simp split: option.splits)
  have ok': "mem_clockOk (case mem_eventTime ev of None \<Rightarrow> t | Some now \<Rightarrow> now) evs"
    using Cons.prems(2) by (simp split: option.splits)
  note st = mem_step_scoreInv [OF Cons.prems(1) ok]
  show ?case
  proof (cases "x = s")
    case True
    then show ?thesis by simp
  next
    case False
    then have "x \<in> set (statesAlong mem_step evs (mem_step ev s))"
      using Cons.prems(3) by simp
    then have "m_score (mem_step ev s) \<le> m_score x"
      using Cons.IH [OF st [THEN conjunct2] ok'] by simp
    then show ?thesis using st by simp
  qed
qed

lemma mem_statesAlong_sorted:
  "mem_scoreInv t s \<Longrightarrow> mem_clockOk t evs \<Longrightarrow>
   sorted (map m_score (statesAlong mem_step evs s))"
proof (induction evs arbitrary: t s)
  case Nil
  then show ?case by simp
next
  case (Cons ev evs)
  have ok: "case mem_eventTime ev of None \<Rightarrow> True | Some now \<Rightarrow> t \<le> now"
    using Cons.prems(2) by (simp split: option.splits)
  have ok': "mem_clockOk (case mem_eventTime ev of None \<Rightarrow> t | Some now \<Rightarrow> now) evs"
    using Cons.prems(2) by (simp split: option.splits)
  note st = mem_step_scoreInv [OF Cons.prems(1) ok]
  have "m_score s \<le> m_score x" if "x \<in> set (statesAlong mem_step evs (mem_step ev s))" for x
    using mem_statesAlong_lower [OF st [THEN conjunct2] ok' that] st by simp
  then show ?case
    using Cons.IH [OF st [THEN conjunct2] ok'] by auto
qed

lemma mem_init_scoreInv: "mem_scoreInv t (mem_init hearts)"
  by (simp add: mem_scoreInv_def mem_init_def)

text \<open>
  Claim C9. Along every run of the Park variant and of the generic engine, from any state,
  the score is non-decreasing from each state to the next: the only writes add
  POINTS_FOR_SPRAY or 10. Along every run of a freshly mounted Memadion session whose
  clock readings never go backwards, the score, recomputed by the timer tick as
  \<open>floor (elapsed / 1000 * 5)\<close>, is non-decreasing as well.
\<close>

theorem score_never_decreases:
  assumes "mem_clockOk t mevs"
  shows "sorted (map p_score (statesAlong park_step evs s)) \<and>
         sorted (map g_score (statesAlong gen_step gevs g)) \<and>
         sorted (map m_score (statesAlong mem_step mevs (mem_init hearts)))"
  using statesAlong_sorted [of p_score park_step evs s, OF park_step_score]
    statesAlong_sorted [of g_score gen_step gevs g, OF gen_step_score]
    mem_statesAlong_sorted [OF mem_init_scoreInv assms]
  by simp

theorem score_never_decreases_witness:
  "mem_clockOk 0 mem_first_ticks \<and>
   map m_score (statesAlong mem_step mem_first_ticks (mem_init 5)) = [0, 0, 0, 0, 0, 2, 5] \<and>
   sorted (map m_score (statesAlong mem_step mem_first_ticks (mem_init 5))) \<and>
   sorted (map p_score (statesAlong park_step park_nine_pickup_events
                          (park_init 5 (Some ''Park Hamesila''))))"
proof -
  have c: "mem_clockOk 0 mem_first_ticks"
    by (simp add: mem_first_ticks_def)
  have v: "map m_score (statesAlong mem_step mem_first_ticks (mem_init 5)) =
             [0, 0, 0, 0, 0, 2, 5]"
    by (simp add: mem_first_ticks_def mem_eval mem_timerCallback_def)
  show ?thesis
    using score_never_decreases [OF c, of park_nine_pickup_events
        "park_init 5 (Some ''Park Hamesila'')" "[]" gen_two_enemies 5] c v
    by simp
qed

end
